theory Spec2Isabelle
  imports Main "HOL-Library.Sublist" "HOL-Library.AList"
begin

section \<open>JavaScript values\<close>

text \<open>
  A JavaScript string is a sequence of UTF-16 code units, and \<open>.length\<close> counts them.
  Strings are therefore lists of code units; \<open>js\<close> turns an ASCII literal into one.
\<close>

type_synonym jsstring = "nat list"

definition js :: "string \<Rightarrow> jsstring" where
  "js s = map of_char s"

text \<open>
  The values a vendor response, a parsed model response or a free-form option can hold:
  what \<open>JSON.parse\<close> produces, and \<open>undefined\<close> for what is absent. An object is the
  list of its own properties, read by key (\<open>map_of\<close>). Numbers are the integers
  that a double holds exactly and prints in decimal (magnitude below \<open>2^53\<close>); other
  numbers are outside the model.
\<close>

datatype json =
    JUndefined
  | JNull
  | JBool bool
  | JNum int
  | JStr jsstring
  | JArr "json list"
  | JObj "(jsstring \<times> json) list"

text \<open>
  Errors. \<open>Error m\<close> is an error object whose \<open>message\<close> is \<open>m\<close>: what
  \<open>new Error(m)\<close> builds, and what a rejected \<open>fetch\<close> or \<open>response.json()\<close>
  carries. The others are raised by the engine itself; the text of their messages is
  the engine's, see \<open>engine\<close> below.
\<close>

datatype reason =
    ReadOfNullish jsstring   \<comment> \<open>a property read on \<open>undefined\<close> or \<open>null\<close>\<close>
  | NotAFunction jsstring    \<comment> \<open>a call of a property that is not a function\<close>
  | NotPrimitive             \<comment> \<open>an object that cannot be converted to a string\<close>
  | SetOnPrimitive jsstring  \<comment> \<open>a property written on a value that is not an object, in strict mode\<close>
  | NullishToObject          \<comment> \<open>\<open>Object.entries\<close> of \<open>undefined\<close> or \<open>null\<close>\<close>

datatype error =
    Error jsstring
  | TypeError reason
  | URIError

definition bindE :: "error + 'a \<Rightarrow> ('a \<Rightarrow> error + 'b) \<Rightarrow> error + 'b" where
  \<comment> \<open>sequencing: an exception thrown by the first step skips the second\<close>
  "bindE r f = (case r of Inl e \<Rightarrow> Inl e | Inr x \<Rightarrow> f x)"

fun sequenceE :: "(error + 'a) list \<Rightarrow> error + 'a list" where
  \<comment> \<open>left to right, stopping at the first exception\<close>
  "sequenceE [] = Inr []"
| "sequenceE (r # rs) =
     (case r of
        Inl e \<Rightarrow> Inl e
      | Inr x \<Rightarrow> (case sequenceE rs of Inl e \<Rightarrow> Inl e | Inr xs \<Rightarrow> Inr (x # xs)))"

fun truthy :: "json \<Rightarrow> bool" where
  \<comment> \<open>ToBoolean: what \<open>if (v)\<close>, \<open>!v\<close> and \<open>v || d\<close> test\<close>
  "truthy JUndefined = False"
| "truthy JNull = False"
| "truthy (JBool b) = b"
| "truthy (JNum n) = (n \<noteq> 0)"
| "truthy (JStr s) = (s \<noteq> [])"
| "truthy (JArr xs) = True"
| "truthy (JObj kvs) = True"

definition orElse :: "json \<Rightarrow> json \<Rightarrow> json" where
  \<comment> \<open>\<open>v || d\<close>\<close>
  "orElse v d = (if truthy v then v else d)"

definition truthyStr :: "jsstring option \<Rightarrow> bool" where
  \<comment> \<open>ToBoolean of a value typed \<open>string | undefined\<close>\<close>
  "truthyStr v = (case v of None \<Rightarrow> False | Some s \<Rightarrow> s \<noteq> [])"

fun nullish :: "json \<Rightarrow> bool" where
  "nullish JUndefined = True"
| "nullish JNull = True"
| "nullish v = False"

text \<open>
  Property reads. \<open>lookupField v k\<close> is \<open>v.k\<close> for a value that is neither
  \<open>undefined\<close> nor \<open>null\<close>: an own property of an object, \<open>undefined\<close> otherwise.
  It is used with the keys of the vendor payloads only, none of which a built-in
  prototype defines. \<open>getField\<close> is the plain read \<open>v.k\<close>, which throws on
  \<open>undefined\<close> and \<open>null\<close>; \<open>optField\<close> is the optional read \<open>v?.k\<close>.
\<close>

fun lookupField :: "json \<Rightarrow> jsstring \<Rightarrow> json" where
  "lookupField (JObj kvs) k = (case map_of kvs k of None \<Rightarrow> JUndefined | Some v \<Rightarrow> v)"
| "lookupField v k = JUndefined"

definition getField :: "json \<Rightarrow> jsstring \<Rightarrow> error + json" where
  "getField v k = (if nullish v then Inl (TypeError (ReadOfNullish k)) else Inr (lookupField v k))"

definition optField :: "json \<Rightarrow> jsstring \<Rightarrow> json" where
  "optField v k = (if nullish v then JUndefined else lookupField v k)"

fun showNat :: "nat \<Rightarrow> jsstring" where
  "showNat n = (if n < 10 then [48 + n] else showNat (n div 10) @ [48 + n mod 10])"

definition showInt :: "int \<Rightarrow> jsstring" where
  "showInt i = (if i < 0 then 45 # showNat (nat (- i)) else showNat (nat i))"

fun optIndex :: "json \<Rightarrow> nat \<Rightarrow> json" where
  \<comment> \<open>\<open>v?.[i]\<close>: an array element, a string's code unit, an object's property named by the digits\<close>
  "optIndex (JArr xs) i = (if i < length xs then xs ! i else JUndefined)"
| "optIndex (JStr s) i = (if i < length s then JStr [s ! i] else JUndefined)"
| "optIndex (JObj kvs) i = lookupField (JObj kvs) (showNat i)"
| "optIndex v i = JUndefined"

fun joinStrings :: "jsstring \<Rightarrow> jsstring list \<Rightarrow> jsstring" where
  "joinStrings sep [] = []"
| "joinStrings sep [x] = x"
| "joinStrings sep (x # y # ys) = x @ sep @ joinStrings sep (y # ys)"

text \<open>
  ToString, as a template literal \<open>`${v}`\<close> and \<open>Array.prototype.join\<close> apply it. An
  array prints as its elements joined by commas, \<open>undefined\<close> and \<open>null\<close> elements
  as nothing. An object prints as \<open>[object Object]\<close> through the inherited
  \<open>toString\<close>; an own property of that name, never callable in parsed JSON, hides the
  inherited one and the conversion throws.
\<close>

fun toStr :: "json \<Rightarrow> error + jsstring" where
  "toStr JUndefined = Inr (js ''undefined'')"
| "toStr JNull = Inr (js ''null'')"
| "toStr (JBool b) = Inr (if b then js ''true'' else js ''false'')"
| "toStr (JNum n) = Inr (showInt n)"
| "toStr (JStr s) = Inr s"
| "toStr (JArr xs) =
     (case sequenceE (map (\<lambda>x. if nullish x then Inr [] else toStr x) xs) of
        Inl e \<Rightarrow> Inl e
      | Inr ss \<Rightarrow> Inr (joinStrings (js '','') ss))"
| "toStr (JObj kvs) =
     (if js ''toString'' \<in> fst ` set kvs then Inl (TypeError NotPrimitive)
      else Inr (js ''[object Object]''))"

definition arrayJoin :: "jsstring \<Rightarrow> json list \<Rightarrow> error + jsstring" where
  \<comment> \<open>\<open>xs.join(sep)\<close>\<close>
  "arrayJoin sep xs =
     (case sequenceE (map (\<lambda>x. if nullish x then Inr [] else toStr x) xs) of
        Inl e \<Rightarrow> Inl e
      | Inr ss \<Rightarrow> Inr (joinStrings sep ss))"

definition mapJoin :: "json \<Rightarrow> jsstring \<Rightarrow> error + json" where
  \<comment> \<open>\<open>v?.map((item) => item.k).join('\n')\<close>: \<open>undefined\<close> when \<open>v\<close> is \<open>undefined\<close>
      or \<open>null\<close>; only an array has a \<open>map\<close> to call\<close>
  "mapJoin v k =
     (if nullish v then Inr JUndefined
      else case v of
        JArr items \<Rightarrow>
          bindE (sequenceE (map (\<lambda>item. getField item k) items))
            (\<lambda>ws. bindE (arrayJoin [10] ws) (\<lambda>s. Inr (JStr s)))
      | _ \<Rightarrow> Inl (TypeError (NotAFunction (js ''map''))))"

fun wellFormed :: "jsstring \<Rightarrow> bool" where
  \<comment> \<open>no lone surrogate: every high surrogate is followed by a low one\<close>
  "wellFormed [] = True"
| "wellFormed [c] = (\<not> (0xD800 \<le> c \<and> c \<le> 0xDFFF))"
| "wellFormed (c # d # cs) =
     (if 0xD800 \<le> c \<and> c \<le> 0xDBFF then 0xDC00 \<le> d \<and> d \<le> 0xDFFF \<and> wellFormed cs
      else \<not> (0xDC00 \<le> c \<and> c \<le> 0xDFFF) \<and> wellFormed (d # cs))"

definition encodeURIComponent :: "jsstring \<Rightarrow> error + jsstring" where
  \<comment> \<open>the built-in throws a URIError on a lone surrogate; the escaped text itself is
      not modelled, requests below carry their parameters unescaped\<close>
  "encodeURIComponent s = (if wellFormed s then Inr s else Inl URIError)"

fun includesStr :: "jsstring \<Rightarrow> jsstring \<Rightarrow> bool" where
  \<comment> \<open>\<open>s.includes(sub)\<close>\<close>
  "includesStr [] sub = (sub = [])"
| "includesStr (c # cs) sub = (prefix sub (c # cs) \<or> includesStr cs sub)"

text \<open>
  What the engine decides: the message of an error it raises itself, the stack trace of
  an error, and the conversion of a string to a number, which is observed through a
  comparison only: \<open>stringGreater s n\<close> says whether the number that \<open>s\<close> converts to
  is greater than \<open>n\<close> (it is not when \<open>s\<close> converts to NaN). The source reads
  them and fixes none.
\<close>

record engine =
  engineMessage :: "error \<Rightarrow> jsstring"
  stack :: "error \<Rightarrow> json"
  stringGreater :: "jsstring \<Rightarrow> int \<Rightarrow> bool"

definition messageOf :: "engine \<Rightarrow> error \<Rightarrow> jsstring" where
  \<comment> \<open>\<open>error.message\<close>\<close>
  "messageOf eng e = (case e of Error m \<Rightarrow> m | _ \<Rightarrow> engineMessage eng e)"

fun lengthOf :: "json \<Rightarrow> json" where
  \<comment> \<open>\<open>v.length\<close> for a value that is neither \<open>undefined\<close> nor \<open>null\<close>: the number
      of code units of a string, of elements of an array, the own property of an object\<close>
  "lengthOf (JStr s) = JNum (int (length s))"
| "lengthOf (JArr xs) = JNum (int (length xs))"
| "lengthOf (JObj kvs) = lookupField (JObj kvs) (js ''length'')"
| "lengthOf v = JUndefined"

fun greaterThan :: "engine \<Rightarrow> json \<Rightarrow> int \<Rightarrow> error + bool" where
  \<comment> \<open>\<open>v > n\<close> for a number \<open>n\<close>: \<open>v\<close> is converted to a number. \<open>undefined\<close> is
      NaN, which is greater than nothing; an array converts through its string; an object
      converts through \<open>[object Object]\<close>, which is NaN, unless an own \<open>toString\<close>
      hides the inherited one and the conversion throws\<close>
  "greaterThan eng JUndefined n = Inr False"
| "greaterThan eng JNull n = Inr (0 > n)"
| "greaterThan eng (JBool b) n = Inr ((if b then 1 else 0) > n)"
| "greaterThan eng (JNum m) n = Inr (m > n)"
| "greaterThan eng (JStr s) n = Inr (stringGreater eng s n)"
| "greaterThan eng (JArr xs) n = bindE (toStr (JArr xs)) (\<lambda>s. Inr (stringGreater eng s n))"
| "greaterThan eng (JObj kvs) n =
     (if js ''toString'' \<in> fst ` set kvs then Inl (TypeError NotPrimitive) else Inr False)"

section \<open>Message texts\<close>

text \<open>
  The texts the source puts in its errors and responses, code unit by code unit, each with
  the place of the literal in the source and its meaning.
\<close>

definition msg_baidu_not_configured :: jsstring where
  \<comment> \<open>part_000 line 54: Baidu OCR API keys not configured\<close>
  "msg_baidu_not_configured = [0x767E, 0x5EA6] @ js ''OCR API'' @ [0x5BC6, 0x94A5, 0x672A, 0x914D, 0x7F6E]"

definition msg_baidu_auth_failed :: jsstring where
  \<comment> \<open>part_000 line 44, test.ts line 89: Baidu OCR authentication failed\<close>
  "msg_baidu_auth_failed = [0x767E, 0x5EA6] @ js ''OCR'' @ [0x8BA4, 0x8BC1, 0x5931, 0x8D25] @ js '': ''"

definition msg_baidu_ocr_failed :: jsstring where
  \<comment> \<open>part_000 line 73: Baidu OCR recognition failed\<close>
  "msg_baidu_ocr_failed = [0x767E, 0x5EA6] @ js ''OCR'' @ [0x8BC6, 0x522B, 0x5931, 0x8D25] @ js '': ''"

definition msg_aliyun_not_configured :: jsstring where
  \<comment> \<open>part_000 line 90: Aliyun OCR API keys not configured\<close>
  "msg_aliyun_not_configured = [0x963F, 0x91CC, 0x4E91] @ js ''OCR API'' @ [0x5BC6, 0x94A5, 0x672A, 0x914D, 0x7F6E]"

definition msg_aliyun_ocr_failed :: jsstring where
  \<comment> \<open>part_000 line 113: Aliyun OCR recognition failed\<close>
  "msg_aliyun_ocr_failed = [0x963F, 0x91CC, 0x4E91] @ js ''OCR'' @ [0x8BC6, 0x522B, 0x5931, 0x8D25] @ js '': ''"

definition msg_wechat_not_configured :: jsstring where
  \<comment> \<open>part_000 line 129: WeChat OCR API keys not configured\<close>
  "msg_wechat_not_configured = [0x5FAE, 0x4FE1] @ js ''OCR API'' @ [0x5BC6, 0x94A5, 0x672A, 0x914D, 0x7F6E]"

definition msg_wechat_auth_failed :: jsstring where
  \<comment> \<open>part_000 line 140: WeChat OCR authentication failed\<close>
  "msg_wechat_auth_failed = [0x5FAE, 0x4FE1] @ js ''OCR'' @ [0x8BA4, 0x8BC1, 0x5931, 0x8D25] @ js '': ''"

definition msg_wechat_ocr_failed :: jsstring where
  \<comment> \<open>part_000 line 163: WeChat OCR recognition failed\<close>
  "msg_wechat_ocr_failed = [0x5FAE, 0x4FE1] @ js ''OCR'' @ [0x8BC6, 0x522B, 0x5931, 0x8D25] @ js '': ''"

definition msg_gemini_not_configured :: jsstring where
  \<comment> \<open>part_000 line 179: Gemini API key not configured\<close>
  "msg_gemini_not_configured = js ''Gemini API'' @ [0x5BC6, 0x94A5, 0x672A, 0x914D, 0x7F6E]"

definition msg_gemini_failed :: jsstring where
  \<comment> \<open>part_000 line 216: Gemini recognition failed\<close>
  "msg_gemini_failed = js ''Gemini'' @ [0x8BC6, 0x522B, 0x5931, 0x8D25] @ js '': ''"

definition default_gemini_prompt :: jsstring where
  \<comment> \<open>part_000 line 200: the default instruction sent to Gemini\<close>
  "default_gemini_prompt = [0x8BF7, 0x63D0, 0x53D6, 0x56FE, 0x7247, 0x4E2D, 0x7684, 0x6240, 0x6709, 0x6587, 0x5B57, 0xFF0C, 0x6309, 0x539F, 0x59CB, 0x683C, 0x5F0F, 0x8F93, 0x51FA, 0x3002]"

definition msg_post_only :: jsstring where
  \<comment> \<open>part_000 line 251, test.ts line 25: only POST is supported\<close>
  "msg_post_only = [0x53EA, 0x652F, 0x6301] @ js ''POST'' @ [0x8BF7, 0x6C42]"

definition msg_missing_params :: jsstring where
  \<comment> \<open>part_000 line 261: required parameters missing\<close>
  "msg_missing_params = [0x7F3A, 0x5C11, 0x5FC5, 0x8981, 0x53C2, 0x6570] @ js '': provider '' @ [0x548C] @ js '' imageBase64''"

definition msg_image_too_large :: jsstring where
  \<comment> \<open>part_000 line 269: image too large (5MB limit)\<close>
  "msg_image_too_large = [0x56FE, 0x7247, 0x8FC7, 0x5927, 0xFF0C, 0x8BF7, 0x538B, 0x7F29, 0x540E, 0x91CD, 0x8BD5, 0xFF08, 0x9650, 0x5236] @ js ''5MB'' @ [0xFF09]"

definition msg_unsupported_provider :: jsstring where
  \<comment> \<open>part_000 line 292: unsupported OCR provider\<close>
  "msg_unsupported_provider = [0x4E0D, 0x652F, 0x6301, 0x7684] @ js ''OCR'' @ [0x63D0, 0x4F9B, 0x5546] @ js '': ''"

definition msg_ocr_processing_failed :: jsstring where
  \<comment> \<open>part_000 line 308: OCR processing failed\<close>
  "msg_ocr_processing_failed = js ''OCR'' @ [0x5904, 0x7406, 0x5931, 0x8D25]"

definition msg_missing_provider :: jsstring where
  \<comment> \<open>test.ts line 35: provider parameter missing\<close>
  "msg_missing_provider = [0x7F3A, 0x5C11, 0x63D0, 0x4F9B, 0x5546, 0x53C2, 0x6570]"

definition msg_env_incomplete :: jsstring where
  \<comment> \<open>test.ts line 73: environment variables not fully configured\<close>
  "msg_env_incomplete = js '' OCR '' @ [0x73AF, 0x5883, 0x53D8, 0x91CF, 0x672A, 0x914D, 0x7F6E, 0x5B8C, 0x6574]"

definition msg_please_configure :: jsstring where
  \<comment> \<open>test.ts line 75: please configure in the Vercel environment\<close>
  "msg_please_configure = [0x8BF7, 0x5728] @ js ''Vercel'' @ [0x73AF, 0x5883, 0x53D8, 0x91CF, 0x4E2D, 0x914D, 0x7F6E] @ js '': ''"

definition msg_baidu_test_ok :: jsstring where
  \<comment> \<open>test.ts line 95: Baidu OCR connection test succeeded\<close>
  "msg_baidu_test_ok = [0x767E, 0x5EA6] @ js ''OCR'' @ [0x8FDE, 0x63A5, 0x6D4B, 0x8BD5, 0x6210, 0x529F]"

definition msg_config_verified :: jsstring where
  \<comment> \<open>test.ts line 104: configuration verified\<close>
  "msg_config_verified = js '' OCR '' @ [0x914D, 0x7F6E, 0x9A8C, 0x8BC1, 0x901A, 0x8FC7]"

definition msg_connection_test_failed :: jsstring where
  \<comment> \<open>test.ts line 113: connection test failed\<close>
  "msg_connection_test_failed = [0x8FDE, 0x63A5, 0x6D4B, 0x8BD5, 0x5931, 0x8D25]"

definition msg_use_local_service :: jsstring where
  \<comment> \<open>cloudOcrService.ts line 39: call the local service directly for local OCR\<close>
  "msg_use_local_service = [0x672C, 0x5730] @ js ''OCR'' @ [0x8BF7, 0x76F4, 0x63A5, 0x8C03, 0x7528, 0x672C, 0x5730, 0x670D, 0x52A1, 0xFF0C, 0x65E0, 0x9700, 0x901A, 0x8FC7, 0x4E91, 0x51FD, 0x6570]"

definition msg_ocr_request_failed :: jsstring where
  \<comment> \<open>cloudOcrService.ts line 59: OCR request failed\<close>
  "msg_ocr_request_failed = js ''OCR'' @ [0x8BF7, 0x6C42, 0x5931, 0x8D25]"

definition msg_network_failed :: jsstring where
  \<comment> \<open>cloudOcrService.ts line 73: network connection failed\<close>
  "msg_network_failed = [0x7F51, 0x7EDC, 0x8FDE, 0x63A5, 0x5931, 0x8D25, 0xFF0C, 0x8BF7, 0x68C0, 0x67E5, 0x7F51, 0x7EDC, 0x540E, 0x91CD, 0x8BD5]"

definition msg_ocr_failed :: jsstring where
  \<comment> \<open>cloudOcrService.ts line 76: OCR recognition failed\<close>
  "msg_ocr_failed = js ''OCR'' @ [0x8BC6, 0x522B, 0x5931, 0x8D25] @ js '': ''"

definition msg_gemini_key_missing :: jsstring where
  \<comment> \<open>part_001 line 253: Gemini API key not configured\<close>
  "msg_gemini_key_missing = js ''Gemini API Key '' @ [0x672A, 0x914D, 0x7F6E, 0x3002]"

section \<open>Configuration and the vendor transport\<close>

text \<open>
  \<open>process.env\<close>: a variable is unset (\<open>None\<close>) or holds a string.
\<close>

record env =
  BAIDU_OCR_API_KEY :: "jsstring option"
  BAIDU_OCR_SECRET_KEY :: "jsstring option"
  ALIYUN_OCR_ACCESS_KEY_ID :: "jsstring option"
  ALIYUN_OCR_ACCESS_KEY_SECRET :: "jsstring option"
  WECHAT_OCR_APP_ID :: "jsstring option"
  WECHAT_OCR_APP_SECRET :: "jsstring option"
  GEMINI_API_KEY :: "jsstring option"
  NODE_ENV :: "jsstring option"

fun bothSet :: "jsstring option \<Rightarrow> jsstring option \<Rightarrow> (jsstring \<times> jsstring) option" where
  \<comment> \<open>the two values, unless \<open>!a || !b\<close>: one is unset or empty\<close>
  "bothSet (Some a) (Some b) = (if a = [] \<or> b = [] then None else Some (a, b))"
| "bothSet a b = None"

text \<open>
  An outbound call is its endpoint and the parameters the source puts in the URL, the
  headers and the body; the serialisation is not modelled. The image is the value the
  adapter was given: the dispatcher passes on what the request body holds, whatever its
  type. The transport answers a call with the parsed JSON body, or with the error of a
  rejected \<open>fetch\<close> or \<open>response.json()\<close>. Every adapter returns the calls it
  made, in order, with its result.
\<close>

datatype outcall =
    BaiduToken jsstring jsstring
      \<comment> \<open>POST aip.baidubce.com/oauth/2.0/token: client_id, client_secret\<close>
  | BaiduGeneralBasic jsstring json jsstring
      \<comment> \<open>POST aip.baidubce.com/rest/2.0/ocr/v1/general_basic: access_token, image, language_type\<close>
  | AliyunOcr jsstring jsstring json
      \<comment> \<open>POST ocr.cn-shanghai.aliyuncs.com: accessKeyId, accessKeySecret, ImageBase64\<close>
  | WechatToken jsstring jsstring
      \<comment> \<open>GET api.weixin.qq.com/cgi-bin/token: appid, secret\<close>
  | WechatOcrComm jsstring json
      \<comment> \<open>POST api.weixin.qq.com/cv/ocr/comm: access_token, img\<close>
  | GeminiGenerateContent jsstring json json
      \<comment> \<open>POST generativelanguage.googleapis.com ...:generateContent: key, image data, instruction\<close>

type_synonym transport = "outcall \<Rightarrow> error + json"

definition ocrResult :: "json \<Rightarrow> jsstring \<Rightarrow> json \<Rightarrow> json" where
  \<comment> \<open>\<open>{ text, provider, rawResult: data }\<close>\<close>
  "ocrResult t p data = JObj [(js ''text'', t), (js ''provider'', JStr p), (js ''rawResult'', data)]"

section \<open>The provider adapters (part\_000)\<close>

definition getBaiduAccessToken ::
  "transport \<Rightarrow> jsstring \<Rightarrow> jsstring \<Rightarrow> outcall list \<times> (error + json)" where
  "getBaiduAccessToken net apiKey secretKey =
     ([BaiduToken apiKey secretKey],
      bindE (net (BaiduToken apiKey secretKey)) (\<lambda>data.
      bindE (getField data (js ''error'')) (\<lambda>err.
        if truthy err then
          bindE (getField data (js ''error_description'')) (\<lambda>d.
          bindE (toStr d) (\<lambda>s.
          Inl (Error (msg_baidu_auth_failed @ s))))
        else getField data (js ''access_token''))))"

definition baiduResult :: "json \<Rightarrow> error + json" where
  \<comment> \<open>lines 70 to 83: the response of the recognition call, normalised\<close>
  "baiduResult data =
     bindE (getField data (js ''error_code'')) (\<lambda>code.
       if truthy code then
         bindE (getField data (js ''error_msg'')) (\<lambda>m.
         bindE (toStr m) (\<lambda>s.
         Inl (Error (msg_baidu_ocr_failed @ s))))
       else
         bindE (getField data (js ''words_result'')) (\<lambda>wr.
         bindE (mapJoin wr (js ''words'')) (\<lambda>t.
         Inr (ocrResult (orElse t (JStr [])) (js ''baidu'') data))))"

definition callBaiduOcr ::
  "env \<Rightarrow> transport \<Rightarrow> json \<Rightarrow> json \<Rightarrow> outcall list \<times> (error + json)" where
  \<comment> \<open>the default \<open>CHN_ENG\<close> stands for a language that is \<open>undefined\<close>; the URL of
      the second call prints the token, its body prints the image, which
      \<open>encodeURIComponent\<close> then escapes, and the language\<close>
  "callBaiduOcr e net imageBase64 language =
     (case bothSet (BAIDU_OCR_API_KEY e) (BAIDU_OCR_SECRET_KEY e) of
        None \<Rightarrow> ([], Inl (Error msg_baidu_not_configured))
      | Some (apiKey, secretKey) \<Rightarrow>
          (case getBaiduAccessToken net apiKey secretKey of
             (calls, Inl err) \<Rightarrow> (calls, Inl err)
           | (calls, Inr accessToken) \<Rightarrow>
               (case bindE (toStr accessToken) (\<lambda>tok.
                     bindE (toStr imageBase64) (\<lambda>printed.
                     bindE (encodeURIComponent printed) (\<lambda>escaped.
                     bindE (toStr (if language = JUndefined then JStr (js ''CHN_ENG'')
                                   else language)) (\<lambda>l.
                     Inr (BaiduGeneralBasic tok imageBase64 l))))) of
                  Inl err \<Rightarrow> (calls, Inl err)
                | Inr call \<Rightarrow> (calls @ [call], bindE (net call) baiduResult))))"

definition aliyunResult :: "json \<Rightarrow> error + json" where
  \<comment> \<open>lines 110 to 122\<close>
  "aliyunResult data =
     bindE (getField data (js ''Code'')) (\<lambda>code.
       if code \<noteq> JStr (js ''200'') then
         bindE (getField data (js ''Message'')) (\<lambda>m.
         bindE (toStr m) (\<lambda>s.
         Inl (Error (msg_aliyun_ocr_failed @ s))))
       else
         bindE (getField data (js ''Data'')) (\<lambda>d.
         Inr (ocrResult (orElse (optField d (js ''Content'')) (JStr [])) (js ''aliyun'') data)))"

definition callAliyunOcr ::
  "env \<Rightarrow> transport \<Rightarrow> json \<Rightarrow> outcall list \<times> (error + json)" where
  "callAliyunOcr e net imageBase64 =
     (case bothSet (ALIYUN_OCR_ACCESS_KEY_ID e) (ALIYUN_OCR_ACCESS_KEY_SECRET e) of
        None \<Rightarrow> ([], Inl (Error msg_aliyun_not_configured))
      | Some (accessKeyId, accessKeySecret) \<Rightarrow>
          ([AliyunOcr accessKeyId accessKeySecret imageBase64],
           bindE (net (AliyunOcr accessKeyId accessKeySecret imageBase64)) aliyunResult))"

definition wechatAccessToken :: "json \<Rightarrow> error + json" where
  \<comment> \<open>lines 137 to 143: the response of the token call\<close>
  "wechatAccessToken tokenData =
     bindE (getField tokenData (js ''errcode'')) (\<lambda>code.
       if truthy code then
         bindE (getField tokenData (js ''errmsg'')) (\<lambda>m.
         bindE (toStr m) (\<lambda>s.
         Inl (Error (msg_wechat_auth_failed @ s))))
       else getField tokenData (js ''access_token''))"

definition wechatResult :: "json \<Rightarrow> error + json" where
  \<comment> \<open>lines 160 to 172\<close>
  "wechatResult ocrData =
     bindE (getField ocrData (js ''errcode'')) (\<lambda>code.
       if truthy code then
         bindE (getField ocrData (js ''errmsg'')) (\<lambda>m.
         bindE (toStr m) (\<lambda>s.
         Inl (Error (msg_wechat_ocr_failed @ s))))
       else
         bindE (getField ocrData (js ''items'')) (\<lambda>items.
         bindE (mapJoin items (js ''text'')) (\<lambda>t.
         Inr (ocrResult (orElse t (JStr [])) (js ''wechat'') ocrData))))"

definition callWechatOcr ::
  "env \<Rightarrow> transport \<Rightarrow> json \<Rightarrow> outcall list \<times> (error + json)" where
  "callWechatOcr e net imageBase64 =
     (case bothSet (WECHAT_OCR_APP_ID e) (WECHAT_OCR_APP_SECRET e) of
        None \<Rightarrow> ([], Inl (Error msg_wechat_not_configured))
      | Some (appId, appSecret) \<Rightarrow>
          (case bindE (net (WechatToken appId appSecret)) wechatAccessToken of
             Inl err \<Rightarrow> ([WechatToken appId appSecret], Inl err)
           | Inr accessToken \<Rightarrow>
               (case toStr accessToken of
                  Inl err \<Rightarrow> ([WechatToken appId appSecret], Inl err)
                | Inr tok \<Rightarrow>
                    ([WechatToken appId appSecret, WechatOcrComm tok imageBase64],
                     bindE (net (WechatOcrComm tok imageBase64)) wechatResult))))"

definition geminiText :: "json \<Rightarrow> json" where
  \<comment> \<open>\<open>candidates?.[0]?.content?.parts?.[0]?.text\<close>\<close>
  "geminiText candidates =
     optField (optIndex (optField (optField (optIndex candidates 0) (js ''content'')) (js ''parts'')) 0)
       (js ''text'')"

definition geminiResult :: "json \<Rightarrow> error + json" where
  \<comment> \<open>lines 213 to 225\<close>
  "geminiResult data =
     bindE (getField data (js ''error'')) (\<lambda>err.
       if truthy err then
         bindE (getField err (js ''message'')) (\<lambda>m.
         bindE (toStr m) (\<lambda>s.
         Inl (Error (msg_gemini_failed @ s))))
       else
         bindE (getField data (js ''candidates'')) (\<lambda>candidates.
         Inr (ocrResult (orElse (geminiText candidates) (JStr [])) (js ''gemini'') data)))"

definition callGeminiOcr ::
  "env \<Rightarrow> transport \<Rightarrow> json \<Rightarrow> json \<Rightarrow> outcall list \<times> (error + json)" where
  "callGeminiOcr e net imageBase64 prompt =
     (case GEMINI_API_KEY e of
        None \<Rightarrow> ([], Inl (Error msg_gemini_not_configured))
      | Some apiKey \<Rightarrow>
          if apiKey = [] then ([], Inl (Error msg_gemini_not_configured))
          else
            ([GeminiGenerateContent apiKey imageBase64 (orElse prompt (JStr default_gemini_prompt))],
             bindE (net (GeminiGenerateContent apiKey imageBase64
                           (orElse prompt (JStr default_gemini_prompt)))) geminiResult))"

section \<open>The dispatcher (part\_000, \<open>handler\<close>)\<close>

text \<open>
  The request body is what the platform parsed, if anything: the cast to \<open>OcrRequest\<close>
  checks nothing, so the body is any JSON value and its fields are read as the source
  reads them. The response is the status set, the headers set and the JSON sent
  (\<open>None\<close> after \<open>end()\<close>). \<open>console.error\<close> is not modelled.
\<close>

record 'b VercelRequest =
  "method" :: jsstring
  body :: "'b option"

record VercelResponse =
  status :: nat
  headers :: "(jsstring \<times> jsstring) list"
  sent :: "json option"

definition corsHeaders :: "(jsstring \<times> jsstring) list" where
  "corsHeaders =
     [(js ''Access-Control-Allow-Credentials'', js ''true''),
      (js ''Access-Control-Allow-Origin'', js ''*''),
      (js ''Access-Control-Allow-Methods'', js ''GET,OPTIONS,PATCH,DELETE,POST,PUT''),
      (js ''Access-Control-Allow-Headers'',
       js ''X-CSRF-Token, X-Requested-With, Accept, Accept-Version, Content-Length, Content-MD5, Content-Type, Date, X-Api-Version'')]"

definition failure :: "jsstring \<Rightarrow> json" where
  \<comment> \<open>\<open>{ success: false, error: msg }\<close>\<close>
  "failure msg = JObj [(js ''success'', JBool False), (js ''error'', JStr msg)]"

definition reply :: "nat \<Rightarrow> json \<Rightarrow> VercelResponse" where
  \<comment> \<open>\<open>response.status(n).json(v)\<close>, after the headers of the dispatcher\<close>
  "reply n v = \<lparr>status = n, headers = corsHeaders, sent = Some v\<rparr>"

definition success :: "json \<Rightarrow> VercelResponse" where
  \<comment> \<open>lines 296 to 300: the success envelope\<close>
  "success result = reply 200 (JObj [(js ''success'', JBool True), (js ''data'', result)])"

definition serverError :: "engine \<Rightarrow> env \<Rightarrow> error \<Rightarrow> VercelResponse" where
  \<comment> \<open>lines 302 to 311: the \<open>catch\<close> of an exception thrown in the \<open>try\<close> block\<close>
  "serverError eng e err =
     reply 500 (JObj
       [(js ''success'', JBool False),
        (js ''error'',
         JStr (if messageOf eng err \<noteq> [] then messageOf eng err else msg_ocr_processing_failed)),
        (js ''details'',
         if NODE_ENV e = Some (js ''development'') then stack eng err else JUndefined)])"

definition dispatch ::
  "engine \<Rightarrow> env \<Rightarrow> transport \<Rightarrow> json \<Rightarrow> outcall list \<times> (error + VercelResponse)" where
  \<comment> \<open>lines 265 to 294, for a body whose \<open>provider\<close> and \<open>imageBase64\<close> are truthy:
      the size guard, then the \<open>switch\<close>; \<open>Inr\<close> is a response returned at once,
      \<open>Inl\<close> an exception for the \<open>catch\<close>\<close>
  "dispatch eng e net b =
     (case greaterThan eng (lengthOf (lookupField b (js ''imageBase64''))) (7 * 1024 * 1024) of
        Inl err \<Rightarrow> ([], Inl err)
      | Inr True \<Rightarrow> ([], Inr (reply 400 (failure msg_image_too_large)))
      | Inr False \<Rightarrow>
          if lookupField b (js ''provider'') = JStr (js ''baidu'') then
            (case callBaiduOcr e net (lookupField b (js ''imageBase64''))
                    (lookupField b (js ''language'')) of
               (calls, r) \<Rightarrow> (calls, bindE r (\<lambda>result. Inr (success result))))
          else if lookupField b (js ''provider'') = JStr (js ''aliyun'') then
            (case callAliyunOcr e net (lookupField b (js ''imageBase64'')) of
               (calls, r) \<Rightarrow> (calls, bindE r (\<lambda>result. Inr (success result))))
          else if lookupField b (js ''provider'') = JStr (js ''wechat'') then
            (case callWechatOcr e net (lookupField b (js ''imageBase64'')) of
               (calls, r) \<Rightarrow> (calls, bindE r (\<lambda>result. Inr (success result))))
          else if lookupField b (js ''provider'') = JStr (js ''gemini'') then
            (case callGeminiOcr e net (lookupField b (js ''imageBase64''))
                    (optField (lookupField b (js ''options'')) (js ''prompt'')) of
               (calls, r) \<Rightarrow> (calls, bindE r (\<lambda>result. Inr (success result))))
          else
            ([], bindE (toStr (lookupField b (js ''provider''))) (\<lambda>p.
                 Inr (reply 400 (failure (msg_unsupported_provider @ p))))))"

definition handler ::
  "engine \<Rightarrow> env \<Rightarrow> transport \<Rightarrow> json VercelRequest \<Rightarrow> outcall list \<times> VercelResponse" where
  "handler eng e net request =
     (if method request = js ''OPTIONS'' then
        ([], \<lparr>status = 200, headers = corsHeaders, sent = None\<rparr>)
      else if method request \<noteq> js ''POST'' then ([], reply 405 (failure msg_post_only))
      else case body request of
        None \<Rightarrow> ([], reply 400 (failure msg_missing_params))
      | Some b \<Rightarrow>
          if \<not> truthy b \<or> \<not> truthy (lookupField b (js ''provider''))
             \<or> \<not> truthy (lookupField b (js ''imageBase64''))
          then ([], reply 400 (failure msg_missing_params))
          else (case dispatch eng e net b of
                  (calls, Inr response) \<Rightarrow> (calls, response)
                | (calls, Inl err) \<Rightarrow> (calls, serverError eng e err)))"

section \<open>The connectivity prober (api/ocr/test.ts, \<open>handler\<close>)\<close>

text \<open>
  The body of a probe is taken in its declared shape \<open>TestRequest\<close>: the provider is
  absent or a string. The two other declared fields are never read.
\<close>

record TestRequest =
  provider :: "jsstring option"

definition testHeaders :: "(jsstring \<times> jsstring) list" where
  "testHeaders =
     [(js ''Access-Control-Allow-Origin'', js ''*''),
      (js ''Access-Control-Allow-Methods'', js ''POST, OPTIONS''),
      (js ''Access-Control-Allow-Headers'', js ''Content-Type'')]"

definition testReply :: "nat \<Rightarrow> json \<Rightarrow> VercelResponse" where
  \<comment> \<open>\<open>response.status(n).json(v)\<close>; \<open>response.json(v)\<close> alone leaves the status at 200\<close>
  "testReply n v = \<lparr>status = n, headers = testHeaders, sent = Some v\<rparr>"

definition envVars :: "env \<Rightarrow> (jsstring \<times> (jsstring \<times> jsstring option) list) list" where
  \<comment> \<open>the object literal of lines 40 to 56, properties in order\<close>
  "envVars e =
     [(js ''baidu'',
         [(js ''apiKey'', BAIDU_OCR_API_KEY e), (js ''secretKey'', BAIDU_OCR_SECRET_KEY e)]),
      (js ''aliyun'',
         [(js ''accessKeyId'', ALIYUN_OCR_ACCESS_KEY_ID e),
          (js ''accessKeySecret'', ALIYUN_OCR_ACCESS_KEY_SECRET e)]),
      (js ''wechat'',
         [(js ''appId'', WECHAT_OCR_APP_ID e), (js ''appSecret'', WECHAT_OCR_APP_SECRET e)]),
      (js ''gemini'', [(js ''apiKey'', GEMINI_API_KEY e)])]"

definition objectPrototypeKeys :: "jsstring list" where
  \<comment> \<open>the names every object inherits\<close>
  "objectPrototypeKeys =
     [js ''constructor'', js ''hasOwnProperty'', js ''isPrototypeOf'',
      js ''propertyIsEnumerable'', js ''toLocaleString'', js ''toString'', js ''valueOf'',
      js ''__proto__'', js ''__defineGetter__'', js ''__defineSetter__'',
      js ''__lookupGetter__'', js ''__lookupSetter__'']"

definition providerEntries :: "env \<Rightarrow> jsstring \<Rightarrow> error + (jsstring \<times> jsstring option) list" where
  \<comment> \<open>\<open>Object.entries(envVars[provider])\<close>: the entries of a provider of the table; none for
      an inherited name, whose value has no enumerable property; a TypeError for any
      other name, whose value is \<open>undefined\<close>\<close>
  "providerEntries e p =
     (case map_of (envVars e) p of
        Some entries \<Rightarrow> Inr entries
      | None \<Rightarrow>
          if p \<in> set objectPrototypeKeys then Inr []
          else Inl (TypeError NullishToObject))"

definition checkFields :: "(jsstring \<times> jsstring option) list \<Rightarrow> bool \<times> jsstring list" where
  \<comment> \<open>the \<open>forEach\<close> of lines 59 to 68, on \<open>(allConfigured, missingFields)\<close>\<close>
  "checkFields entries =
     fold (\<lambda>(key, val) (allConfigured, missingFields).
             if \<not> truthyStr val then (False, missingFields @ [key])
             else (allConfigured, missingFields))
       entries (True, [])"

definition entryText :: "(jsstring \<times> jsstring option) list \<Rightarrow> jsstring \<Rightarrow> jsstring" where
  \<comment> \<open>\<open>`${providerVars.k}`\<close>\<close>
  "entryText entries k = (case map_of entries k of Some (Some v) \<Rightarrow> v | _ \<Rightarrow> js ''undefined'')"

definition baiduProbe :: "json \<Rightarrow> error + VercelResponse" where
  \<comment> \<open>lines 84 to 97: the response of the token call, reported\<close>
  "baiduProbe data =
     bindE (getField data (js ''error'')) (\<lambda>err.
       if truthy err then
         bindE (getField data (js ''error_description'')) (\<lambda>d.
         bindE (toStr d) (\<lambda>s.
         Inr (testReply 200 (failure (msg_baidu_auth_failed @ s)))))
       else
         bindE (getField data (js ''expires_in'')) (\<lambda>expires.
         Inr (testReply 200 (JObj
                [(js ''success'', JBool True),
                 (js ''message'', JStr msg_baidu_test_ok),
                 (js ''expiresIn'', expires)]))))"

definition testCatch :: "engine \<Rightarrow> error + VercelResponse \<Rightarrow> VercelResponse" where
  \<comment> \<open>lines 108 to 115\<close>
  "testCatch eng r =
     (case r of
        Inr resp \<Rightarrow> resp
      | Inl err \<Rightarrow>
          testReply 500 (failure (if messageOf eng err \<noteq> [] then messageOf eng err
                                  else msg_connection_test_failed)))"

definition test_handler ::
  "engine \<Rightarrow> env \<Rightarrow> transport \<Rightarrow> TestRequest VercelRequest \<Rightarrow> outcall list \<times> VercelResponse" where
  "test_handler eng e net request =
     (if method request = js ''OPTIONS'' then
        ([], \<lparr>status = 200, headers = testHeaders, sent = None\<rparr>)
      else if method request \<noteq> js ''POST'' then ([], testReply 405 (failure msg_post_only))
      else case body request of
        None \<Rightarrow> ([], testReply 400 (failure msg_missing_provider))
      | Some b \<Rightarrow>
          (case TestRequest.provider b of
             None \<Rightarrow> ([], testReply 400 (failure msg_missing_provider))
           | Some p \<Rightarrow>
               if p = [] then ([], testReply 400 (failure msg_missing_provider))
               else (case providerEntries e p of
                 Inl err \<Rightarrow> ([], testCatch eng (Inl err))
               | Inr providerVars \<Rightarrow>
                   (case checkFields providerVars of
                      (allConfigured, missingFields) \<Rightarrow>
                        if \<not> allConfigured then
                          ([], testReply 400 (JObj
                             [(js ''success'', JBool False),
                              (js ''error'', JStr (p @ msg_env_incomplete)),
                              (js ''missingFields'', JArr (map JStr missingFields)),
                              (js ''message'',
                               JStr (msg_please_configure @ joinStrings (js '', '') missingFields))]))
                        else if p = js ''baidu'' then
                          ([BaiduToken (entryText providerVars (js ''apiKey''))
                              (entryText providerVars (js ''secretKey''))],
                           testCatch eng
                             (bindE (net (BaiduToken (entryText providerVars (js ''apiKey''))
                                            (entryText providerVars (js ''secretKey''))))
                                baiduProbe))
                        else
                          ([], testReply 200 (JObj
                             [(js ''success'', JBool True),
                              (js ''message'', JStr (p @ msg_config_verified)),
                              (js ''configured'', JBool True)]))))))"

section \<open>The client-side facade (cloudOcrService.ts, \<open>performCloudOcr\<close>)\<close>

text \<open>
  Modelled from the spec: the enumeration \<open>OCRProvider\<close> of \<open>types.ts\<close>, which is
  not among the sources; its members are the six that \<open>cloudOcrService.ts\<close> names.
\<close>

datatype OCRProvider = GEMINI | BAIDU | WECHAT | ALIBABA | LOCAL | ESEARCH

fun providerMap :: "OCRProvider \<Rightarrow> jsstring" where
  "providerMap GEMINI = js ''gemini''"
| "providerMap BAIDU = js ''baidu''"
| "providerMap WECHAT = js ''wechat''"
| "providerMap ALIBABA = js ''aliyun''"
| "providerMap LOCAL = js ''local''"
| "providerMap ESEARCH = js ''local''"

text \<open>
  The one request of the facade, \<open>POST /api/ocr\<close>, with the fields of its body. The
  browser's \<open>fetch\<close> rejects, or gives a response: its \<open>ok\<close> flag and what
  \<open>response.json()\<close> gives.
\<close>

datatype apicall = PostApiOcr jsstring jsstring "jsstring option" json

type_synonym apifetch = "apicall \<Rightarrow> error + (bool \<times> (error + json))"

definition requestFailed :: "json \<Rightarrow> error + json" where
  \<comment> \<open>line 59: \<open>throw new Error(data.error || ...)\<close>\<close>
  "requestFailed data =
     bindE (getField data (js ''error'')) (\<lambda>err.
     bindE (toStr (orElse err (JStr msg_ocr_request_failed))) (\<lambda>s.
     Inl (Error s)))"

definition cloudResult :: "json \<Rightarrow> error + json" where
  \<comment> \<open>lines 62 to 66\<close>
  "cloudResult data =
     bindE (getField data (js ''data'')) (\<lambda>d.
     bindE (getField d (js ''text'')) (\<lambda>t.
     bindE (getField d (js ''provider'')) (\<lambda>p.
     bindE (getField d (js ''rawResult'')) (\<lambda>r.
     Inr (JObj [(js ''text'', t), (js ''provider'', p), (js ''rawResult'', r)])))))"

definition cloudTry :: "apifetch \<Rightarrow> apicall \<Rightarrow> error + json" where
  \<comment> \<open>the \<open>try\<close> block, lines 43 to 66\<close>
  "cloudTry api call =
     bindE (api call) (\<lambda>(ok, parsed).
     bindE parsed (\<lambda>data.
       if \<not> ok then requestFailed data
       else bindE (getField data (js ''success'')) (\<lambda>success.
         if \<not> truthy success then requestFailed data else cloudResult data)))"

definition cloudCatch :: "engine \<Rightarrow> error \<Rightarrow> error" where
  \<comment> \<open>the \<open>catch\<close> block, lines 68 to 77: the error thrown in place of the caught one\<close>
  "cloudCatch eng err =
     (if includesStr (messageOf eng err) (js ''NetworkError'')
         \<or> includesStr (messageOf eng err) (js ''Failed to fetch'')
      then Error msg_network_failed
      else Error (msg_ocr_failed @ messageOf eng err))"

definition performCloudOcr ::
  "engine \<Rightarrow> apifetch \<Rightarrow> OCRProvider \<Rightarrow> jsstring \<Rightarrow> jsstring option \<Rightarrow> json
     \<Rightarrow> apicall list \<times> (error + json)" where
  "performCloudOcr eng api p img lang opts =
     (if p = LOCAL \<or> p = ESEARCH then ([], Inl (Error msg_use_local_service))
      else
        ([PostApiOcr (providerMap p) img lang opts],
         case cloudTry api (PostApiOcr (providerMap p) img lang opts) of
           Inr result \<Rightarrow> Inr result
         | Inl err \<Rightarrow> Inl (cloudCatch eng err)))"

section \<open>The analysis adapter (services/geminiService.ts and part\_001)\<close>

text \<open>
  The model call. A prompt is the template that builds it and the values interpolated
  in it; the request is the API key of the client, the model name, the inline image if
  any, and the prompt. The call rejects, or gives a response whose \<open>text\<close> is a string
  or \<open>undefined\<close>. \<open>JSON.parse\<close> is a parameter: it throws or gives a value. The
  constructor of the client is taken not to throw.
\<close>

datatype prompt =
    PosterPrompt json "jsstring option"
      \<comment> \<open>geminiService.ts lines 18 to 44: the terminology, the pre-extracted text if any\<close>
  | TerminologyPrompt jsstring
      \<comment> \<open>geminiService.ts lines 117 to 129: the raw text\<close>
  | TerminologyPromptFlash jsstring
      \<comment> \<open>part\_001 lines 258 to 261: the raw text\<close>

datatype generate = GenerateContent json jsstring "jsstring option" prompt

type_synonym genai = "generate \<Rightarrow> error + jsstring option"

type_synonym jsonParse = "jsstring \<Rightarrow> error + json"

text \<open>
  What \<open>analyzePosterImage\<close> returns: the parsed value, or, when the parsed value is an
  array and the text was written on it, that array with the extra property.
\<close>

datatype returned = Plain json | ArrayWith "json list" jsstring json

fun setField :: "json \<Rightarrow> jsstring \<Rightarrow> json \<Rightarrow> error + returned" where
  \<comment> \<open>\<open>v.k = x\<close> in a module (strict mode), then \<open>v\<close>\<close>
  "setField (JObj kvs) k x = Inr (Plain (JObj (AList.update k x kvs)))"
| "setField (JArr xs) k x = Inr (ArrayWith xs k x)"
| "setField v k x = Inl (TypeError (SetOnPrimitive k))"

definition envText :: "jsstring option \<Rightarrow> json" where
  \<comment> \<open>a variable of the environment as a value\<close>
  "envText v = (case v of None \<Rightarrow> JUndefined | Some s \<Rightarrow> JStr s)"

definition analyzePosterImage ::
  "genai \<Rightarrow> jsonParse \<Rightarrow> jsstring option \<Rightarrow> jsstring \<Rightarrow> json \<Rightarrow> jsstring option
     \<Rightarrow> error + returned" where
  \<comment> \<open>geminiService.ts; the third argument is \<open>process.env.API_KEY\<close>\<close>
  "analyzePosterImage ai parse API_KEY base64Image terminology preExtractedText =
     bindE (ai (GenerateContent (envText API_KEY) (js ''gemini-3-pro-preview'') (Some base64Image)
                  (PosterPrompt terminology
                     (if truthyStr preExtractedText then preExtractedText else None))))
       (\<lambda>resultText.
          case resultText of
            None \<Rightarrow> Inl (Error (js ''Analysis engine returned empty response.''))
          | Some t \<Rightarrow>
              if t = [] then Inl (Error (js ''Analysis engine returned empty response.''))
              else bindE (parse t) (\<lambda>parsed.
                (case preExtractedText of
                   None \<Rightarrow> Inr (Plain parsed)
                 | Some pre \<Rightarrow>
                     if pre = [] then Inr (Plain parsed)
                     else bindE (getField parsed (js ''text'')) (\<lambda>txt.
                       if \<not> truthy txt then setField parsed (js ''text'') (JStr pre)
                       else Inr (Plain parsed)))))"

definition parsedTerms :: "jsonParse \<Rightarrow> jsstring option \<Rightarrow> error + json" where
  \<comment> \<open>\<open>if (!resultText) return []; return JSON.parse(resultText);\<close>\<close>
  "parsedTerms parse resultText =
     (case resultText of
        None \<Rightarrow> Inr (JArr [])
      | Some t \<Rightarrow> if t = [] then Inr (JArr []) else parse t)"

definition parseTerminologyFromText ::
  "genai \<Rightarrow> jsonParse \<Rightarrow> jsstring option \<Rightarrow> jsstring \<Rightarrow> error + json" where
  \<comment> \<open>geminiService.ts lines 114 to 155\<close>
  "parseTerminologyFromText ai parse API_KEY rawText =
     bindE (ai (GenerateContent (envText API_KEY) (js ''gemini-3-pro-preview'') None
                  (TerminologyPrompt rawText)))
       (parsedTerms parse)"

text \<open>
  The configuration \<open>getGeminiApiKey\<close> of part\_001 reads: the value of
  \<open>window.__GUARDVISION_CONFIG__\<close> when there is a \<open>window\<close>, and the build
  variable.
\<close>

record frontend =
  windowConfig :: "json option"
  VITE_GEMINI_API_KEY :: "jsstring option"

definition getGeminiApiKey :: "frontend \<Rightarrow> json" where
  "getGeminiApiKey fe =
     (case windowConfig fe of
        Some config \<Rightarrow>
          if truthy (optField config (js ''geminiApiKey'')) then optField config (js ''geminiApiKey'')
          else orElse (envText (VITE_GEMINI_API_KEY fe)) (JStr [])
      | None \<Rightarrow> orElse (envText (VITE_GEMINI_API_KEY fe)) (JStr []))"

definition parseTerminologyFromText_part_001 ::
  "frontend \<Rightarrow> genai \<Rightarrow> jsonParse \<Rightarrow> jsstring \<Rightarrow> error + json" where
  \<comment> \<open>part\_001 lines 249 to 292\<close>
  "parseTerminologyFromText_part_001 fe ai parse rawText =
     (if \<not> truthy (getGeminiApiKey fe) then Inl (Error msg_gemini_key_missing)
      else
        case bindE (ai (GenerateContent (getGeminiApiKey fe) (js ''gemini-1.5-flash'') None
                          (TerminologyPromptFlash rawText)))
               (parsedTerms parse) of
          Inl err \<Rightarrow> Inr (JArr [])
        | Inr terms \<Rightarrow> Inr terms)"

section \<open>Sample inputs\<close>

fun decimal :: "jsstring \<Rightarrow> nat \<Rightarrow> nat option" where
  \<comment> \<open>the number that a string of decimal digits writes, after the digits read so far\<close>
  "decimal [] acc = Some acc"
| "decimal (c # cs) acc = (if 48 \<le> c \<and> c \<le> 57 then decimal cs (10 * acc + (c - 48)) else None)"

definition quiet_engine :: engine where
  \<comment> \<open>an engine that says little; it converts the strings of decimal digits, and takes
      every other string as NaN\<close>
  "quiet_engine =
     \<lparr>engineMessage = (\<lambda>e. js ''TypeError''), stack = (\<lambda>e. JUndefined),
      stringGreater = (\<lambda>s n. case decimal s 0 of None \<Rightarrow> False | Some v \<Rightarrow> int v > n)\<rparr>"

definition all_keys :: env where
  "all_keys =
     \<lparr>BAIDU_OCR_API_KEY = Some (js ''ak''), BAIDU_OCR_SECRET_KEY = Some (js ''sk''),
      ALIYUN_OCR_ACCESS_KEY_ID = Some (js ''id''), ALIYUN_OCR_ACCESS_KEY_SECRET = Some (js ''secret''),
      WECHAT_OCR_APP_ID = Some (js ''app''), WECHAT_OCR_APP_SECRET = Some (js ''appsecret''),
      GEMINI_API_KEY = Some (js ''gk''), NODE_ENV = None\<rparr>"

definition ocr_request :: "jsstring \<Rightarrow> jsstring \<Rightarrow> json VercelRequest" where
  \<comment> \<open>\<open>POST { provider, imageBase64 }\<close>\<close>
  "ocr_request p img =
     \<lparr>method = js ''POST'',
      body = Some (JObj [(js ''provider'', JStr p), (js ''imageBase64'', JStr img)])\<rparr>"

definition post_body :: "json \<Rightarrow> json VercelRequest" where
  \<comment> \<open>a POST request with the body given\<close>
  "post_body b = \<lparr>method = js ''POST'', body = Some b\<rparr>"

definition gemini_no_content :: json where
  \<comment> \<open>a response of Gemini whose one candidate was stopped and has no content\<close>
  "gemini_no_content =
     JObj [(js ''candidates'', JArr [JObj [(js ''finishReason'', JStr (js ''SAFETY''))]])]"

definition gemini_no_parts :: json where
  \<comment> \<open>a response of Gemini whose one candidate has a content with no part\<close>
  "gemini_no_parts =
     JObj [(js ''candidates'',
            JArr [JObj [(js ''content'', JObj [(js ''parts'', JArr []), (js ''role'', JStr (js ''model''))])]])]"

definition gemini_empty_part :: json where
  \<comment> \<open>a response of Gemini whose one candidate has one part, with the empty text\<close>
  "gemini_empty_part =
     JObj [(js ''candidates'',
            JArr [JObj [(js ''content'', JObj [(js ''parts'', JArr [JObj [(js ''text'', JStr [])]])])]])]"

definition no_text_net :: transport where
  \<comment> \<open>every vendor answers that it found no text\<close>
  "no_text_net c =
     (case c of
        BaiduToken k s \<Rightarrow>
          Inr (JObj [(js ''access_token'', JStr (js ''t1'')), (js ''expires_in'', JNum 2592000)])
      | BaiduGeneralBasic t i l \<Rightarrow>
          Inr (JObj [(js ''words_result'', JArr []), (js ''words_result_num'', JNum 0)])
      | AliyunOcr k s i \<Rightarrow>
          Inr (JObj [(js ''Code'', JStr (js ''200'')), (js ''Data'', JObj [(js ''Content'', JStr [])])])
      | WechatToken a s \<Rightarrow>
          Inr (JObj [(js ''access_token'', JStr (js ''t2'')), (js ''expires_in'', JNum 7200)])
      | WechatOcrComm t i \<Rightarrow>
          Inr (JObj [(js ''errcode'', JNum 0), (js ''errmsg'', JStr (js ''ok'')), (js ''items'', JArr [])])
      | GeminiGenerateContent k i p \<Rightarrow> Inr (JObj [(js ''candidates'', JArr [])]))"

definition tiny_png :: jsstring where
  "tiny_png = js ''iVBORw0KGgoAAAANSUhEUgAAAAEAAAABCAYAAAAfFcSJAAAADUlEQVR42mNkYPhfDwAChwGA60e6kgAAAABJRU5ErkJggg==''"

definition token_error_net :: transport where
  \<comment> \<open>both token endpoints reject the credentials\<close>
  "token_error_net c =
     (case c of
        BaiduToken k s \<Rightarrow>
          Inr (JObj [(js ''error'', JStr (js ''invalid_client'')),
                     (js ''error_description'', JStr (js ''unknown client id''))])
      | WechatToken a s \<Rightarrow>
          Inr (JObj [(js ''errcode'', JNum 40013), (js ''errmsg'', JStr (js ''invalid appid''))])
      | _ \<Rightarrow> Inl (Error (js ''unexpected call'')))"

definition gemini_only :: env where
  \<comment> \<open>only the Gemini key is set; the Baidu API key is set to the empty string\<close>
  "gemini_only =
     \<lparr>BAIDU_OCR_API_KEY = Some [], BAIDU_OCR_SECRET_KEY = None,
      ALIYUN_OCR_ACCESS_KEY_ID = None, ALIYUN_OCR_ACCESS_KEY_SECRET = None,
      WECHAT_OCR_APP_ID = Some (js ''app''), WECHAT_OCR_APP_SECRET = None,
      GEMINI_API_KEY = Some (js ''gk''), NODE_ENV = None\<rparr>"

definition test_request :: "jsstring \<Rightarrow> TestRequest VercelRequest" where
  \<comment> \<open>\<open>POST { provider }\<close>\<close>
  "test_request p = \<lparr>method = js ''POST'', body = Some \<lparr>TestRequest.provider = Some p\<rparr>\<rparr>"

definition offline_fetch :: apifetch where
  \<comment> \<open>the browser is offline: every \<open>fetch\<close> rejects\<close>
  "offline_fetch c = Inl (Error (js ''Failed to fetch''))"

definition quoted :: "jsstring \<Rightarrow> jsstring" where
  \<comment> \<open>a string between double quotes\<close>
  "quoted s = 0x22 # s @ [0x22]"

definition terms_text :: jsstring where
  \<comment> \<open>the JSON text of a list of one term\<close>
  "terms_text =
     js ''[{'' @ quoted (js ''term'') @ js '':'' @ quoted (js ''NVR'') @ js '',''
       @ quoted (js ''category'') @ js '':'' @ quoted (js ''storage'') @ js '',''
       @ quoted (js ''definition'') @ js '':'' @ quoted (js ''network video recorder'') @ js ''}]''"

definition terms_value :: json where
  \<comment> \<open>what \<open>JSON.parse\<close> makes of \<open>terms_text\<close>\<close>
  "terms_value =
     JArr [JObj [(js ''term'', JStr (js ''NVR'')), (js ''category'', JStr (js ''storage'')),
                 (js ''definition'', JStr (js ''network video recorder''))]]"

definition sample_parse :: jsonParse where
  \<comment> \<open>\<open>JSON.parse\<close> on the three texts the samples use; any other text is taken as malformed\<close>
  "sample_parse t =
     (if t = terms_text then Inr terms_value
      else if t = js ''{}'' then Inr (JObj [])
      else if t = js ''[]'' then Inr (JArr [])
      else Inl (Error (js ''Unexpected token'')))"

definition key_in_window :: frontend where
  "key_in_window =
     \<lparr>windowConfig = Some (JObj [(js ''geminiApiKey'', JStr (js ''gk''))]),
      VITE_GEMINI_API_KEY = None\<rparr>"

section \<open>Basic facts\<close>

lemma js_eq_iff [simp]: "js a = js b \<longleftrightarrow> a = b"
  unfolding js_def by (rule inj_map_eq_map) (simp add: inj_def)

lemma bindE_simps [simp]:
  "bindE (Inl e) f = Inl e"
  "bindE (Inr x) f = f x"
  by (simp_all add: bindE_def)

lemma bothSet_Some [simp]:
  "bothSet a b = Some (x, y) \<longleftrightarrow> a = Some x \<and> b = Some y \<and> x \<noteq> [] \<and> y \<noteq> []"
  by (cases a; cases b) auto

lemma bothSet_None:
  "bothSet a b = None \<longleftrightarrow> \<not> truthyStr a \<or> \<not> truthyStr b"
  by (cases a; cases b) (auto simp add: truthyStr_def)

lemma lookup_failure_success [simp]: "lookupField (failure m) (js ''success'') = JBool False"
  by (simp add: failure_def)

lemma lookup_failure_error [simp]: "lookupField (failure m) (js ''error'') = JStr m"
  by (simp add: failure_def)

lemma mapJoin_absent [simp]:
  "mapJoin JUndefined k = Inr JUndefined"
  "mapJoin JNull k = Inr JUndefined"
  "mapJoin (JArr []) k = Inr (JStr [])"
  by (simp_all add: mapJoin_def arrayJoin_def)

lemma getField_present [simp]: "\<not> nullish v \<Longrightarrow> getField v k = Inr (lookupField v k)"
  by (simp add: getField_def)

lemma getField_nullish [simp]: "nullish v \<Longrightarrow> getField v k = Inl (TypeError (ReadOfNullish k))"
  by (simp add: getField_def)

lemma truthy_not_nullish: "truthy v \<Longrightarrow> \<not> nullish v"
  by (cases v) auto

lemma truthy_field_not_nullish: "truthy (lookupField v k) \<Longrightarrow> \<not> nullish v"
  by (cases v) auto

lemma orElse_simps [simp]:
  "truthy v \<Longrightarrow> orElse v d = v"
  "\<not> truthy v \<Longrightarrow> orElse v d = d"
  by (simp_all add: orElse_def)

lemma geminiText_absent [simp]:
  "geminiText JUndefined = JUndefined"
  "geminiText JNull = JUndefined"
  "geminiText (JArr []) = JUndefined"
  by (simp_all add: geminiText_def optField_def)

section \<open>The payload-size guard\<close>

text \<open>
  C3. A POST request whose \<open>imageBase64\<close> string is longer than \<open>7 * 1024 * 1024\<close>
  characters is answered by the dispatcher with status 400 and \<open>success: false\<close>, and
  no outbound call is made: no adapter runs. This holds whatever the provider field
  holds, a string or any other value, also when it is missing.
\<close>

theorem oversize_payload_rejected:
  assumes "method request = js ''POST''"
    and "body request = Some b"
    and "lookupField b (js ''imageBase64'') = JStr img"
    and "length img > 7 * 1024 * 1024"
  shows "fst (handler eng e net request) = []
       \<and> status (snd (handler eng e net request)) = 400
       \<and> (\<exists>v. sent (snd (handler eng e net request)) = Some v
              \<and> lookupField v (js ''success'') = JBool False)"
proof -
  from assms have "truthy b"
    by (cases b) auto
  moreover from assms have "img \<noteq> []"
    by auto
  moreover from assms have "greaterThan eng (lengthOf (JStr img)) (7 * 1024 * 1024) = Inr True"
    by simp
  ultimately show ?thesis
    using assms by (simp add: handler_def dispatch_def reply_def)
qed

theorem oversize_payload_rejected_witness:
  "7 * 1024 * 1024 < length (replicate 7340033 (65::nat))
   \<and> fst (handler quiet_engine all_keys (\<lambda>c. Inr (JObj []))
              (ocr_request (js ''baidu'') (replicate 7340033 65))) = []
   \<and> status (snd (handler quiet_engine all_keys (\<lambda>c. Inr (JObj []))
                      (ocr_request (js ''baidu'') (replicate 7340033 65)))) = 400
   \<and> (\<exists>v. sent (snd (handler quiet_engine all_keys (\<lambda>c. Inr (JObj []))
                            (ocr_request (js ''baidu'') (replicate 7340033 65)))) = Some v
          \<and> lookupField v (js ''success'') = JBool False)"
  using oversize_payload_rejected
    [of "ocr_request (js ''baidu'') (replicate 7340033 65)"
        "JObj [(js ''provider'', JStr (js ''baidu'')),
               (js ''imageBase64'', JStr (replicate 7340033 65))]"
        "replicate 7340033 65" quiet_engine all_keys "\<lambda>c. Inr (JObj [])"]
  by (simp add: ocr_request_def)

section \<open>Responses without text\<close>

lemma callBaiduOcr_no_text:
  assumes "bothSet (BAIDU_OCR_API_KEY e) (BAIDU_OCR_SECRET_KEY e) = Some (k, s)"
    and "net (BaiduToken k s) = Inr token" and "\<not> nullish token"
    and "\<not> truthy (lookupField token (js ''error''))"
    and "toStr (lookupField token (js ''access_token'')) = Inr tok"
    and "toStr img = Inr printed" and "wellFormed printed"
    and "toStr (if lang = JUndefined then JStr (js ''CHN_ENG'') else lang) = Inr l"
    and "net (BaiduGeneralBasic tok img l) = Inr data"
    and "\<not> nullish data" and "\<not> truthy (lookupField data (js ''error_code''))"
    and "lookupField data (js ''words_result'') = JUndefined
           \<or> lookupField data (js ''words_result'') = JNull
           \<or> lookupField data (js ''words_result'') = JArr []"
  shows "callBaiduOcr e net img lang =
           ([BaiduToken k s, BaiduGeneralBasic tok img l],
            Inr (ocrResult (JStr []) (js ''baidu'') data))"
proof -
  from assms have tok: "getBaiduAccessToken net k s =
      ([BaiduToken k s], Inr (lookupField token (js ''access_token'')))"
    by (simp add: getBaiduAccessToken_def)
  from assms have res: "baiduResult data = Inr (ocrResult (JStr []) (js ''baidu'') data)"
    by (auto simp add: baiduResult_def)
  from assms tok res show ?thesis
    by (simp add: callBaiduOcr_def encodeURIComponent_def del: bothSet_Some)
qed

lemma callAliyunOcr_no_text:
  assumes "bothSet (ALIYUN_OCR_ACCESS_KEY_ID e) (ALIYUN_OCR_ACCESS_KEY_SECRET e) = Some (k, s)"
    and "net (AliyunOcr k s img) = Inr data"
    and "lookupField data (js ''Code'') = JStr (js ''200'')"
    and "\<not> truthy (optField (lookupField data (js ''Data'')) (js ''Content''))"
  shows "callAliyunOcr e net img =
           ([AliyunOcr k s img], Inr (ocrResult (JStr []) (js ''aliyun'') data))"
proof -
  from assms have "\<not> nullish data" by (cases data) auto
  with assms have "aliyunResult data = Inr (ocrResult (JStr []) (js ''aliyun'') data)"
    by (simp add: aliyunResult_def)
  with assms show ?thesis
    by (simp add: callAliyunOcr_def del: bothSet_Some)
qed

lemma callWechatOcr_no_text:
  assumes "bothSet (WECHAT_OCR_APP_ID e) (WECHAT_OCR_APP_SECRET e) = Some (k, s)"
    and "net (WechatToken k s) = Inr token" and "\<not> nullish token"
    and "\<not> truthy (lookupField token (js ''errcode''))"
    and "toStr (lookupField token (js ''access_token'')) = Inr tok"
    and "net (WechatOcrComm tok img) = Inr data"
    and "\<not> nullish data" and "\<not> truthy (lookupField data (js ''errcode''))"
    and "lookupField data (js ''items'') = JUndefined
           \<or> lookupField data (js ''items'') = JNull
           \<or> lookupField data (js ''items'') = JArr []"
  shows "callWechatOcr e net img =
           ([WechatToken k s, WechatOcrComm tok img], Inr (ocrResult (JStr []) (js ''wechat'') data))"
proof -
  from assms have tok: "wechatAccessToken token = Inr (lookupField token (js ''access_token''))"
    by (simp add: wechatAccessToken_def)
  from assms have res: "wechatResult data = Inr (ocrResult (JStr []) (js ''wechat'') data)"
    by (auto simp add: wechatResult_def)
  from assms tok res show ?thesis
    by (simp add: callWechatOcr_def del: bothSet_Some)
qed

lemma callGeminiOcr_no_text:
  assumes "GEMINI_API_KEY e = Some k" and "k \<noteq> []"
    and "net (GeminiGenerateContent k img (orElse prompt (JStr default_gemini_prompt))) = Inr data"
    and "\<not> nullish data" and "\<not> truthy (lookupField data (js ''error''))"
    and "lookupField data (js ''candidates'') = JUndefined
           \<or> lookupField data (js ''candidates'') = JNull
           \<or> lookupField data (js ''candidates'') = JArr []"
  shows "callGeminiOcr e net img prompt =
           ([GeminiGenerateContent k img (orElse prompt (JStr default_gemini_prompt))],
            Inr (ocrResult (JStr []) (js ''gemini'') data))"
proof -
  from assms have "geminiResult data = Inr (ocrResult (JStr []) (js ''gemini'') data)"
    by (auto simp add: geminiResult_def)
  with assms show ?thesis
    by (simp add: callGeminiOcr_def)
qed

lemma callGeminiOcr_falsy_text:
  assumes "GEMINI_API_KEY e = Some k" and "k \<noteq> []"
    and "net (GeminiGenerateContent k img (orElse prompt (JStr default_gemini_prompt))) = Inr data"
    and "\<not> nullish data" and "\<not> truthy (lookupField data (js ''error''))"
    and "\<not> truthy
           (optField
              (optIndex
                 (optField
                    (optField (optIndex (lookupField data (js ''candidates'')) 0) (js ''content''))
                    (js ''parts''))
                 0)
              (js ''text''))"
  shows "callGeminiOcr e net img prompt =
           ([GeminiGenerateContent k img (orElse prompt (JStr default_gemini_prompt))],
            Inr (ocrResult (JStr []) (js ''gemini'') data))"
proof -
  from assms have "geminiResult data = Inr (ocrResult (JStr []) (js ''gemini'') data)"
    by (simp add: geminiResult_def geminiText_def)
  with assms show ?thesis
    by (simp add: callGeminiOcr_def)
qed

lemma orElse_empty_defined:
  "orElse v (JStr []) \<noteq> JUndefined" "orElse v (JStr []) \<noteq> JNull"
  by (cases v; simp add: orElse_def)+

lemma lookup_ocrResult_text [simp]: "lookupField (ocrResult t p data) (js ''text'') = t"
  by (simp add: ocrResult_def)

lemma baiduResult_text:
  "baiduResult data = Inr r \<Longrightarrow> \<exists>t. r = ocrResult (orElse t (JStr [])) (js ''baidu'') data"
  by (auto simp add: baiduResult_def bindE_def split: sum.splits if_splits)

lemma aliyunResult_text:
  "aliyunResult data = Inr r \<Longrightarrow> \<exists>t. r = ocrResult (orElse t (JStr [])) (js ''aliyun'') data"
  by (auto simp add: aliyunResult_def bindE_def split: sum.splits if_splits)

lemma wechatResult_text:
  "wechatResult data = Inr r \<Longrightarrow> \<exists>t. r = ocrResult (orElse t (JStr [])) (js ''wechat'') data"
  by (auto simp add: wechatResult_def bindE_def split: sum.splits if_splits)

lemma geminiResult_text:
  "geminiResult data = Inr r \<Longrightarrow> \<exists>t. r = ocrResult (orElse t (JStr [])) (js ''gemini'') data"
  by (auto simp add: geminiResult_def bindE_def split: sum.splits if_splits)

lemma callBaiduOcr_text:
  assumes "snd (callBaiduOcr e net img lang) = Inr r"
  shows "\<exists>t p data. r = ocrResult (orElse t (JStr [])) p data"
  using assms
  by (auto simp add: callBaiduOcr_def bindE_def
      split: option.splits sum.splits prod.splits if_splits dest!: baiduResult_text)

lemma callAliyunOcr_text:
  assumes "snd (callAliyunOcr e net img) = Inr r"
  shows "\<exists>t p data. r = ocrResult (orElse t (JStr [])) p data"
  using assms
  by (auto simp add: callAliyunOcr_def bindE_def
      split: option.splits sum.splits prod.splits if_splits dest!: aliyunResult_text)

lemma callWechatOcr_text:
  assumes "snd (callWechatOcr e net img) = Inr r"
  shows "\<exists>t p data. r = ocrResult (orElse t (JStr [])) p data"
  using assms
  by (auto simp add: callWechatOcr_def bindE_def
      split: option.splits sum.splits prod.splits if_splits dest!: wechatResult_text)

lemma callGeminiOcr_text:
  assumes "snd (callGeminiOcr e net img prompt) = Inr r"
  shows "\<exists>t p data. r = ocrResult (orElse t (JStr [])) p data"
  using assms
  by (auto simp add: callGeminiOcr_def bindE_def
      split: option.splits sum.splits prod.splits if_splits dest!: geminiResult_text)

lemma result_text_defined:
  assumes "\<exists>t p data. r = ocrResult (orElse t (JStr [])) p data"
  shows "lookupField r (js ''text'') \<noteq> JUndefined \<and> lookupField r (js ''text'') \<noteq> JNull"
  using assms orElse_empty_defined by auto

text \<open>
  C1. Each adapter (\<open>callBaiduOcr\<close>, \<open>callAliyunOcr\<close>, \<open>callWechatOcr\<close>,
  \<open>callGeminiOcr\<close>), with its credentials configured, returns a result whose
  \<open>text\<close> is the empty string when the vendor response passes the adapter's error
  check and its text-bearing field is absent or empty: \<open>words_result\<close> or
  \<open>items\<close> is missing, \<open>null\<close> or the empty array; \<open>Data.Content\<close> is missing,
  \<open>null\<close> or empty; and for Gemini the path
  \<open>candidates[0].content.parts[0].text\<close> ends nowhere or in an empty text, at
  whatever step: \<open>candidates\<close> missing, \<open>null\<close> or empty, a first candidate
  without \<open>content\<close>, a content without \<open>parts\<close> or with none, a first part
  without \<open>text\<close> or with the empty one. The text is never \<open>null\<close> or
  \<open>undefined\<close>. For Aliyun the error check passes on the code \<open>200\<close>; for the two
  token providers the token exchange has succeeded, and for Baidu the image prints as a
  well-formed string, which \<open>encodeURIComponent\<close> accepts, and the language prints.
  And whatever the vendor answers, the \<open>text\<close> of a result that an adapter
  returns is neither \<open>undefined\<close> nor \<open>null\<close>.
\<close>

theorem absent_text_is_empty_string:
  "(bothSet (BAIDU_OCR_API_KEY e) (BAIDU_OCR_SECRET_KEY e) = Some (bk, bsec)
      \<and> net (BaiduToken bk bsec) = Inr btoken \<and> \<not> nullish btoken
      \<and> \<not> truthy (lookupField btoken (js ''error''))
      \<and> toStr (lookupField btoken (js ''access_token'')) = Inr btok
      \<and> toStr img = Inr printed \<and> wellFormed printed
      \<and> toStr (if lang = JUndefined then JStr (js ''CHN_ENG'') else lang) = Inr l
      \<and> net (BaiduGeneralBasic btok img l) = Inr bdata
      \<and> \<not> nullish bdata \<and> \<not> truthy (lookupField bdata (js ''error_code''))
      \<and> (lookupField bdata (js ''words_result'') = JUndefined
           \<or> lookupField bdata (js ''words_result'') = JNull
           \<or> lookupField bdata (js ''words_result'') = JArr [])
    \<longrightarrow> snd (callBaiduOcr e net img lang) = Inr (ocrResult (JStr []) (js ''baidu'') bdata))
 \<and> (bothSet (ALIYUN_OCR_ACCESS_KEY_ID e) (ALIYUN_OCR_ACCESS_KEY_SECRET e) = Some (ak, asec)
      \<and> net (AliyunOcr ak asec img) = Inr adata
      \<and> lookupField adata (js ''Code'') = JStr (js ''200'')
      \<and> \<not> truthy (optField (lookupField adata (js ''Data'')) (js ''Content''))
    \<longrightarrow> snd (callAliyunOcr e net img) = Inr (ocrResult (JStr []) (js ''aliyun'') adata))
 \<and> (bothSet (WECHAT_OCR_APP_ID e) (WECHAT_OCR_APP_SECRET e) = Some (wk, wsec)
      \<and> net (WechatToken wk wsec) = Inr wtoken \<and> \<not> nullish wtoken
      \<and> \<not> truthy (lookupField wtoken (js ''errcode''))
      \<and> toStr (lookupField wtoken (js ''access_token'')) = Inr wtok
      \<and> net (WechatOcrComm wtok img) = Inr wdata
      \<and> \<not> nullish wdata \<and> \<not> truthy (lookupField wdata (js ''errcode''))
      \<and> (lookupField wdata (js ''items'') = JUndefined
           \<or> lookupField wdata (js ''items'') = JNull
           \<or> lookupField wdata (js ''items'') = JArr [])
    \<longrightarrow> snd (callWechatOcr e net img) = Inr (ocrResult (JStr []) (js ''wechat'') wdata))
 \<and> (GEMINI_API_KEY e = Some gk \<and> gk \<noteq> []
      \<and> net (GeminiGenerateContent gk img (orElse prompt (JStr default_gemini_prompt))) = Inr gdata
      \<and> \<not> nullish gdata \<and> \<not> truthy (lookupField gdata (js ''error''))
      \<and> \<not> truthy
            (optField
               (optIndex
                  (optField
                     (optField (optIndex (lookupField gdata (js ''candidates'')) 0) (js ''content''))
                     (js ''parts''))
                  0)
               (js ''text''))
    \<longrightarrow> snd (callGeminiOcr e net img prompt) = Inr (ocrResult (JStr []) (js ''gemini'') gdata))
 \<and> (snd (callBaiduOcr e net img lang) = Inr r \<or> snd (callAliyunOcr e net img) = Inr r
      \<or> snd (callWechatOcr e net img) = Inr r \<or> snd (callGeminiOcr e net img prompt) = Inr r
    \<longrightarrow> lookupField r (js ''text'') \<noteq> JUndefined \<and> lookupField r (js ''text'') \<noteq> JNull)"
proof (intro conjI impI; (elim conjE)?)
  show "lookupField r (js ''text'') \<noteq> JUndefined"
    if "snd (callBaiduOcr e net img lang) = Inr r \<or> snd (callAliyunOcr e net img) = Inr r
      \<or> snd (callWechatOcr e net img) = Inr r \<or> snd (callGeminiOcr e net img prompt) = Inr r"
    using that callBaiduOcr_text [of e net img lang r] callAliyunOcr_text [of e net img r]
      callWechatOcr_text [of e net img r] callGeminiOcr_text [of e net img prompt r]
      result_text_defined [of r]
    by blast
  show "lookupField r (js ''text'') \<noteq> JNull"
    if "snd (callBaiduOcr e net img lang) = Inr r \<or> snd (callAliyunOcr e net img) = Inr r
      \<or> snd (callWechatOcr e net img) = Inr r \<or> snd (callGeminiOcr e net img prompt) = Inr r"
    using that callBaiduOcr_text [of e net img lang r] callAliyunOcr_text [of e net img r]
      callWechatOcr_text [of e net img r] callGeminiOcr_text [of e net img prompt r]
      result_text_defined [of r]
    by blast
  show "snd (callBaiduOcr e net img lang) = Inr (ocrResult (JStr []) (js ''baidu'') bdata)"
    if "bothSet (BAIDU_OCR_API_KEY e) (BAIDU_OCR_SECRET_KEY e) = Some (bk, bsec)"
      "net (BaiduToken bk bsec) = Inr btoken" "\<not> nullish btoken"
      "\<not> truthy (lookupField btoken (js ''error''))"
      "toStr (lookupField btoken (js ''access_token'')) = Inr btok"
      "toStr img = Inr printed" "wellFormed printed"
      "toStr (if lang = JUndefined then JStr (js ''CHN_ENG'') else lang) = Inr l"
      "net (BaiduGeneralBasic btok img l) = Inr bdata"
      "\<not> nullish bdata" "\<not> truthy (lookupField bdata (js ''error_code''))"
      "lookupField bdata (js ''words_result'') = JUndefined
           \<or> lookupField bdata (js ''words_result'') = JNull
           \<or> lookupField bdata (js ''words_result'') = JArr []"
    using that callBaiduOcr_no_text
      [where e = e and k = bk and s = bsec and net = net and token = btoken and tok = btok
         and img = img and printed = printed and lang = lang and l = l and data = bdata]
    by simp
  show "snd (callAliyunOcr e net img) = Inr (ocrResult (JStr []) (js ''aliyun'') adata)"
    if "bothSet (ALIYUN_OCR_ACCESS_KEY_ID e) (ALIYUN_OCR_ACCESS_KEY_SECRET e) = Some (ak, asec)"
      "net (AliyunOcr ak asec img) = Inr adata"
      "lookupField adata (js ''Code'') = JStr (js ''200'')"
      "\<not> truthy (optField (lookupField adata (js ''Data'')) (js ''Content''))"
    using that callAliyunOcr_no_text [of e ak asec net img adata] by simp
  show "snd (callWechatOcr e net img) = Inr (ocrResult (JStr []) (js ''wechat'') wdata)"
    if "bothSet (WECHAT_OCR_APP_ID e) (WECHAT_OCR_APP_SECRET e) = Some (wk, wsec)"
      "net (WechatToken wk wsec) = Inr wtoken" "\<not> nullish wtoken"
      "\<not> truthy (lookupField wtoken (js ''errcode''))"
      "toStr (lookupField wtoken (js ''access_token'')) = Inr wtok"
      "net (WechatOcrComm wtok img) = Inr wdata"
      "\<not> nullish wdata" "\<not> truthy (lookupField wdata (js ''errcode''))"
      "lookupField wdata (js ''items'') = JUndefined
           \<or> lookupField wdata (js ''items'') = JNull
           \<or> lookupField wdata (js ''items'') = JArr []"
    using that callWechatOcr_no_text [of e wk wsec net wtoken wtok img wdata] by simp
  show "snd (callGeminiOcr e net img prompt) = Inr (ocrResult (JStr []) (js ''gemini'') gdata)"
    if "GEMINI_API_KEY e = Some gk" "gk \<noteq> []"
      "net (GeminiGenerateContent gk img (orElse prompt (JStr default_gemini_prompt))) = Inr gdata"
      "\<not> nullish gdata" "\<not> truthy (lookupField gdata (js ''error''))"
      "\<not> truthy
         (optField
            (optIndex
               (optField
                  (optField (optIndex (lookupField gdata (js ''candidates'')) 0) (js ''content''))
                  (js ''parts''))
               0)
            (js ''text''))"
    using that callGeminiOcr_falsy_text [of e gk net img prompt gdata] by simp
qed

theorem absent_text_is_empty_string_witness:
  "snd (callBaiduOcr all_keys no_text_net (JStr tiny_png) JUndefined) =
     Inr (ocrResult (JStr []) (js ''baidu'')
            (JObj [(js ''words_result'', JArr []), (js ''words_result_num'', JNum 0)]))
 \<and> snd (callAliyunOcr all_keys no_text_net (JStr tiny_png)) =
     Inr (ocrResult (JStr []) (js ''aliyun'')
            (JObj [(js ''Code'', JStr (js ''200'')), (js ''Data'', JObj [(js ''Content'', JStr [])])]))
 \<and> snd (callWechatOcr all_keys no_text_net (JStr tiny_png)) =
     Inr (ocrResult (JStr []) (js ''wechat'')
            (JObj [(js ''errcode'', JNum 0), (js ''errmsg'', JStr (js ''ok'')), (js ''items'', JArr [])]))
 \<and> snd (callGeminiOcr all_keys no_text_net (JStr tiny_png) JUndefined) =
     Inr (ocrResult (JStr []) (js ''gemini'') (JObj [(js ''candidates'', JArr [])]))
 \<and> snd (callGeminiOcr all_keys (\<lambda>c. Inr gemini_no_content) (JStr tiny_png) JUndefined) =
     Inr (ocrResult (JStr []) (js ''gemini'') gemini_no_content)
 \<and> snd (callGeminiOcr all_keys (\<lambda>c. Inr gemini_no_parts) (JStr tiny_png) JUndefined) =
     Inr (ocrResult (JStr []) (js ''gemini'') gemini_no_parts)
 \<and> snd (callGeminiOcr all_keys (\<lambda>c. Inr gemini_empty_part) (JStr tiny_png) JUndefined) =
     Inr (ocrResult (JStr []) (js ''gemini'') gemini_empty_part)
 \<and> lookupField (ocrResult (JStr []) (js ''gemini'') (JObj [(js ''candidates'', JArr [])]))
       (js ''text'') \<noteq> JNull"
  using
    absent_text_is_empty_string
    [where net = no_text_net and gdata = "JObj [(js ''candidates'', JArr [])]"
       and r = "ocrResult (JStr []) (js ''gemini'') (JObj [(js ''candidates'', JArr [])])"
       and e = all_keys and img = "JStr tiny_png" and printed = tiny_png
       and lang = JUndefined and l = "js ''CHN_ENG''" and prompt = JUndefined
       and bk = "js ''ak''" and bsec = "js ''sk''" and btok = "js ''t1''"
       and btoken = "JObj [(js ''access_token'', JStr (js ''t1'')), (js ''expires_in'', JNum 2592000)]"
       and bdata = "JObj [(js ''words_result'', JArr []), (js ''words_result_num'', JNum 0)]"
       and ak = "js ''id''" and asec = "js ''secret''"
       and adata = "JObj [(js ''Code'', JStr (js ''200'')), (js ''Data'', JObj [(js ''Content'', JStr [])])]"
       and wk = "js ''app''" and wsec = "js ''appsecret''" and wtok = "js ''t2''"
       and wtoken = "JObj [(js ''access_token'', JStr (js ''t2'')), (js ''expires_in'', JNum 7200)]"
       and wdata = "JObj [(js ''errcode'', JNum 0), (js ''errmsg'', JStr (js ''ok'')), (js ''items'', JArr [])]"
       and gk = "js ''gk''"]
    absent_text_is_empty_string
    [where net = "\<lambda>c. Inr gemini_no_content" and gdata = gemini_no_content
       and r = "ocrResult (JStr []) (js ''gemini'') gemini_no_content"
       and e = all_keys and img = "JStr tiny_png" and printed = tiny_png
       and lang = JUndefined and l = "js ''CHN_ENG''" and prompt = JUndefined
       and bk = "js ''ak''" and bsec = "js ''sk''" and btok = "js ''t1''"
       and btoken = "JObj [(js ''access_token'', JStr (js ''t1'')), (js ''expires_in'', JNum 2592000)]"
       and bdata = "JObj [(js ''words_result'', JArr []), (js ''words_result_num'', JNum 0)]"
       and ak = "js ''id''" and asec = "js ''secret''"
       and adata = "JObj [(js ''Code'', JStr (js ''200'')), (js ''Data'', JObj [(js ''Content'', JStr [])])]"
       and wk = "js ''app''" and wsec = "js ''appsecret''" and wtok = "js ''t2''"
       and wtoken = "JObj [(js ''access_token'', JStr (js ''t2'')), (js ''expires_in'', JNum 7200)]"
       and wdata = "JObj [(js ''errcode'', JNum 0), (js ''errmsg'', JStr (js ''ok'')), (js ''items'', JArr [])]"
       and gk = "js ''gk''"]
    absent_text_is_empty_string
    [where net = "\<lambda>c. Inr gemini_no_parts" and gdata = gemini_no_parts
       and r = "ocrResult (JStr []) (js ''gemini'') gemini_no_parts"
       and e = all_keys and img = "JStr tiny_png" and printed = tiny_png
       and lang = JUndefined and l = "js ''CHN_ENG''" and prompt = JUndefined
       and bk = "js ''ak''" and bsec = "js ''sk''" and btok = "js ''t1''"
       and btoken = "JObj [(js ''access_token'', JStr (js ''t1'')), (js ''expires_in'', JNum 2592000)]"
       and bdata = "JObj [(js ''words_result'', JArr []), (js ''words_result_num'', JNum 0)]"
       and ak = "js ''id''" and asec = "js ''secret''"
       and adata = "JObj [(js ''Code'', JStr (js ''200'')), (js ''Data'', JObj [(js ''Content'', JStr [])])]"
       and wk = "js ''app''" and wsec = "js ''appsecret''" and wtok = "js ''t2''"
       and wtoken = "JObj [(js ''access_token'', JStr (js ''t2'')), (js ''expires_in'', JNum 7200)]"
       and wdata = "JObj [(js ''errcode'', JNum 0), (js ''errmsg'', JStr (js ''ok'')), (js ''items'', JArr [])]"
       and gk = "js ''gk''"]
    absent_text_is_empty_string
    [where net = "\<lambda>c. Inr gemini_empty_part" and gdata = gemini_empty_part
       and r = "ocrResult (JStr []) (js ''gemini'') gemini_empty_part"
       and e = all_keys and img = "JStr tiny_png" and printed = tiny_png
       and lang = JUndefined and l = "js ''CHN_ENG''" and prompt = JUndefined
       and bk = "js ''ak''" and bsec = "js ''sk''" and btok = "js ''t1''"
       and btoken = "JObj [(js ''access_token'', JStr (js ''t1'')), (js ''expires_in'', JNum 2592000)]"
       and bdata = "JObj [(js ''words_result'', JArr []), (js ''words_result_num'', JNum 0)]"
       and ak = "js ''id''" and asec = "js ''secret''"
       and adata = "JObj [(js ''Code'', JStr (js ''200'')), (js ''Data'', JObj [(js ''Content'', JStr [])])]"
       and wk = "js ''app''" and wsec = "js ''appsecret''" and wtok = "js ''t2''"
       and wtoken = "JObj [(js ''access_token'', JStr (js ''t2'')), (js ''expires_in'', JNum 7200)]"
       and wdata = "JObj [(js ''errcode'', JNum 0), (js ''errmsg'', JStr (js ''ok'')), (js ''items'', JArr [])]"
       and gk = "js ''gk''"]
  by (simp add: all_keys_def no_text_net_def tiny_png_def optField_def js_def
        gemini_no_content_def gemini_no_parts_def gemini_empty_part_def)

section \<open>The Gemini adapter on an empty candidate list\<close>

lemma callGeminiOcr_fails_iff:
  assumes "GEMINI_API_KEY e = Some k" and "k \<noteq> []"
    and "net (GeminiGenerateContent k img (orElse prompt (JStr default_gemini_prompt))) = Inr data"
    and "\<not> nullish data"
  shows "(\<exists>err. snd (callGeminiOcr e net img prompt) = Inl err)
           \<longleftrightarrow> truthy (lookupField data (js ''error''))"
proof (cases "truthy (lookupField data (js ''error''))")
  case True
  then have "\<not> nullish (lookupField data (js ''error''))"
    by (rule truthy_not_nullish)
  with True assms have "\<exists>err. geminiResult data = Inl err"
    by (cases "toStr (lookupField (lookupField data (js ''error'')) (js ''message''))")
       (simp_all add: geminiResult_def)
  with True assms show ?thesis
    by (auto simp add: callGeminiOcr_def)
next
  case False
  with assms show ?thesis
    by (simp add: callGeminiOcr_def geminiResult_def)
qed

text \<open>
  C2, as the code has it. The specification asks for an explicit failure on an empty or
  absent candidate list; \<open>callGeminiOcr\<close> ends its text expression with \<open>|| ''\<close>
  as the other adapters do. With the key configured and a response that is not \<open>null\<close>, the
  adapter fails exactly when the response carries an error field; on a response with no
  error field and a missing, \<open>null\<close> or empty \<open>candidates\<close> it returns a result
  whose \<open>text\<close> is the empty string.
\<close>

theorem gemini_empty_candidates_returns_empty_text:
  assumes "GEMINI_API_KEY e = Some k" and "k \<noteq> []"
    and "net (GeminiGenerateContent k img (orElse prompt (JStr default_gemini_prompt))) = Inr data"
    and "\<not> nullish data"
  shows "((\<exists>err. snd (callGeminiOcr e net img prompt) = Inl err)
            \<longleftrightarrow> truthy (lookupField data (js ''error'')))
       \<and> (\<not> truthy (lookupField data (js ''error''))
            \<and> (lookupField data (js ''candidates'') = JUndefined
                 \<or> lookupField data (js ''candidates'') = JNull
                 \<or> lookupField data (js ''candidates'') = JArr [])
          \<longrightarrow> snd (callGeminiOcr e net img prompt) = Inr (ocrResult (JStr []) (js ''gemini'') data))"
  using assms callGeminiOcr_fails_iff [of e k net img prompt data]
    callGeminiOcr_no_text [of e k net img prompt data]
  by simp

theorem gemini_empty_candidates_returns_empty_text_witness:
  "snd (callGeminiOcr all_keys (\<lambda>c. Inr (JObj [])) (JStr tiny_png) (JStr (js ''Read the label.'')))
     = Inr (ocrResult (JStr []) (js ''gemini'') (JObj []))"
  using gemini_empty_candidates_returns_empty_text
    [of all_keys "js ''gk''" "\<lambda>c. Inr (JObj [])" "JStr tiny_png" "JStr (js ''Read the label.'')"
        "JObj []"]
  by (simp add: all_keys_def js_def)

text \<open>
  The input at which the sentence of the specification fails: the key is configured, no
  prompt is given, and the vendor answers \<open>{ candidates: [] }\<close>. The adapter makes
  its one call and returns the result with the empty text; it does not fail.
\<close>

theorem gemini_empty_candidates_counterexample:
  "no_text_net (GeminiGenerateContent (js ''gk'') (JStr tiny_png) (JStr default_gemini_prompt))
     = Inr (JObj [(js ''candidates'', JArr [])])
   \<and> callGeminiOcr all_keys no_text_net (JStr tiny_png) JUndefined
     = ([GeminiGenerateContent (js ''gk'') (JStr tiny_png) (JStr default_gemini_prompt)],
        Inr (ocrResult (JStr []) (js ''gemini'') (JObj [(js ''candidates'', JArr [])])))"
  by (simp add: callGeminiOcr_def geminiResult_def all_keys_def no_text_net_def js_def)

section \<open>The token exchange\<close>

lemma callBaiduOcr_token_error:
  assumes "bothSet (BAIDU_OCR_API_KEY e) (BAIDU_OCR_SECRET_KEY e) = Some (k, s)"
    and "net (BaiduToken k s) = Inr token"
    and "truthy (lookupField token (js ''error''))"
    and "toStr (lookupField token (js ''error_description'')) = Inr d"
  shows "callBaiduOcr e net img lang = ([BaiduToken k s], Inl (Error (msg_baidu_auth_failed @ d)))"
proof -
  from assms have "\<not> nullish token"
    by (simp add: truthy_field_not_nullish)
  with assms have "getBaiduAccessToken net k s =
      ([BaiduToken k s], Inl (Error (msg_baidu_auth_failed @ d)))"
    by (simp add: getBaiduAccessToken_def)
  with assms show ?thesis
    by (simp add: callBaiduOcr_def del: bothSet_Some)
qed

lemma callWechatOcr_token_error:
  assumes "bothSet (WECHAT_OCR_APP_ID e) (WECHAT_OCR_APP_SECRET e) = Some (k, s)"
    and "net (WechatToken k s) = Inr token"
    and "truthy (lookupField token (js ''errcode''))"
    and "toStr (lookupField token (js ''errmsg'')) = Inr d"
  shows "callWechatOcr e net img = ([WechatToken k s], Inl (Error (msg_wechat_auth_failed @ d)))"
proof -
  from assms have "\<not> nullish token"
    by (simp add: truthy_field_not_nullish)
  with assms have "wechatAccessToken token = Inl (Error (msg_wechat_auth_failed @ d))"
    by (simp add: wechatAccessToken_def)
  with assms show ?thesis
    by (simp add: callWechatOcr_def del: bothSet_Some)
qed

lemma callBaiduOcr_token_error_one_call:
  assumes "bothSet (BAIDU_OCR_API_KEY e) (BAIDU_OCR_SECRET_KEY e) = Some (k, s)"
    and "net (BaiduToken k s) = Inr token"
    and "truthy (lookupField token (js ''error''))"
  shows "fst (callBaiduOcr e net img lang) = [BaiduToken k s]
       \<and> (\<exists>err. snd (callBaiduOcr e net img lang) = Inl err)"
proof -
  from assms have "\<not> nullish token"
    by (simp add: truthy_field_not_nullish)
  with assms have "\<exists>err. getBaiduAccessToken net k s = ([BaiduToken k s], Inl err)"
    by (cases "toStr (lookupField token (js ''error_description''))")
       (simp_all add: getBaiduAccessToken_def)
  with assms show ?thesis
    by (auto simp add: callBaiduOcr_def simp del: bothSet_Some)
qed

lemma callWechatOcr_token_error_one_call:
  assumes "bothSet (WECHAT_OCR_APP_ID e) (WECHAT_OCR_APP_SECRET e) = Some (k, s)"
    and "net (WechatToken k s) = Inr token"
    and "truthy (lookupField token (js ''errcode''))"
  shows "fst (callWechatOcr e net img) = [WechatToken k s]
       \<and> (\<exists>err. snd (callWechatOcr e net img) = Inl err)"
proof -
  from assms have "\<not> nullish token"
    by (simp add: truthy_field_not_nullish)
  with assms have "\<exists>err. wechatAccessToken token = Inl err"
    by (cases "toStr (lookupField token (js ''errmsg''))")
       (simp_all add: wechatAccessToken_def)
  with assms show ?thesis
    by (auto simp add: callWechatOcr_def simp del: bothSet_Some)
qed

lemma callBaiduOcr_success_calls:
  assumes "snd (callBaiduOcr e net img lang) = Inr r"
  shows "\<exists>k s tok l. fst (callBaiduOcr e net img lang) = [BaiduToken k s, BaiduGeneralBasic tok img l]"
  using assms
  by (auto simp add: callBaiduOcr_def getBaiduAccessToken_def bindE_def
      split: option.splits sum.splits prod.splits if_splits)

lemma callWechatOcr_success_calls:
  assumes "snd (callWechatOcr e net img) = Inr r"
  shows "\<exists>k s tok. fst (callWechatOcr e net img) = [WechatToken k s, WechatOcrComm tok img]"
  using assms
  by (auto simp add: callWechatOcr_def split: option.splits sum.splits prod.splits)

text \<open>
  C4. For Baidu and WeChat, when the response of the token exchange carries an error
  field (\<open>error\<close>, \<open>errcode\<close>), the adapter fails and the token call is its only
  outbound call; the error thrown is the authentication error, whose message ends with
  the vendor's diagnostic text (\<open>error_description\<close>, \<open>errmsg\<close>, as a template
  literal prints it). Whenever the adapter succeeds, it has made exactly two calls: the
  token call, then the recognition call.
\<close>

theorem token_exchange_fails_fast:
  "(bothSet (BAIDU_OCR_API_KEY e) (BAIDU_OCR_SECRET_KEY e) = Some (bk, bsec)
      \<and> net (BaiduToken bk bsec) = Inr btoken
      \<and> truthy (lookupField btoken (js ''error''))
      \<and> toStr (lookupField btoken (js ''error_description'')) = Inr bmsg
    \<longrightarrow> callBaiduOcr e net img lang =
          ([BaiduToken bk bsec], Inl (Error (msg_baidu_auth_failed @ bmsg))))
 \<and> (bothSet (WECHAT_OCR_APP_ID e) (WECHAT_OCR_APP_SECRET e) = Some (wk, wsec)
      \<and> net (WechatToken wk wsec) = Inr wtoken
      \<and> truthy (lookupField wtoken (js ''errcode''))
      \<and> toStr (lookupField wtoken (js ''errmsg'')) = Inr wmsg
    \<longrightarrow> callWechatOcr e net img =
          ([WechatToken wk wsec], Inl (Error (msg_wechat_auth_failed @ wmsg))))
 \<and> (bothSet (BAIDU_OCR_API_KEY e) (BAIDU_OCR_SECRET_KEY e) = Some (bk, bsec)
      \<and> net (BaiduToken bk bsec) = Inr btoken
      \<and> truthy (lookupField btoken (js ''error''))
    \<longrightarrow> fst (callBaiduOcr e net img lang) = [BaiduToken bk bsec]
        \<and> (\<exists>err. snd (callBaiduOcr e net img lang) = Inl err))
 \<and> (bothSet (WECHAT_OCR_APP_ID e) (WECHAT_OCR_APP_SECRET e) = Some (wk, wsec)
      \<and> net (WechatToken wk wsec) = Inr wtoken
      \<and> truthy (lookupField wtoken (js ''errcode''))
    \<longrightarrow> fst (callWechatOcr e net img) = [WechatToken wk wsec]
        \<and> (\<exists>err. snd (callWechatOcr e net img) = Inl err))
 \<and> (snd (callBaiduOcr e net img lang) = Inr br
    \<longrightarrow> (\<exists>k s tok l. fst (callBaiduOcr e net img lang) =
                        [BaiduToken k s, BaiduGeneralBasic tok img l]))
 \<and> (snd (callWechatOcr e net img) = Inr wr
    \<longrightarrow> (\<exists>k s tok. fst (callWechatOcr e net img) = [WechatToken k s, WechatOcrComm tok img]))"
  using callBaiduOcr_token_error [of e bk bsec net btoken bmsg img lang]
    callWechatOcr_token_error [of e wk wsec net wtoken wmsg img]
    callBaiduOcr_token_error_one_call [of e bk bsec net btoken img lang]
    callWechatOcr_token_error_one_call [of e wk wsec net wtoken img]
    callBaiduOcr_success_calls [of e net img lang br]
    callWechatOcr_success_calls [of e net img wr]
  by blast

theorem token_exchange_fails_fast_witness:
  "callBaiduOcr all_keys token_error_net (JStr tiny_png) JUndefined =
     ([BaiduToken (js ''ak'') (js ''sk'')],
      Inl (Error (msg_baidu_auth_failed @ js ''unknown client id'')))
 \<and> callWechatOcr all_keys token_error_net (JStr tiny_png) =
     ([WechatToken (js ''app'') (js ''appsecret'')],
      Inl (Error (msg_wechat_auth_failed @ js ''invalid appid'')))
 \<and> (\<exists>k s tok l. fst (callBaiduOcr all_keys no_text_net (JStr tiny_png) JUndefined) =
        [BaiduToken k s, BaiduGeneralBasic tok (JStr tiny_png) l])
 \<and> (\<exists>k s tok. fst (callWechatOcr all_keys no_text_net (JStr tiny_png)) =
        [WechatToken k s, WechatOcrComm tok (JStr tiny_png)])"
  using token_exchange_fails_fast
    [where e = all_keys and net = token_error_net and img = "JStr tiny_png" and lang = JUndefined
       and bk = "js ''ak''" and bsec = "js ''sk''" and bmsg = "js ''unknown client id''"
       and btoken = "JObj [(js ''error'', JStr (js ''invalid_client'')),
                           (js ''error_description'', JStr (js ''unknown client id''))]"
       and wk = "js ''app''" and wsec = "js ''appsecret''" and wmsg = "js ''invalid appid''"
       and wtoken = "JObj [(js ''errcode'', JNum 40013), (js ''errmsg'', JStr (js ''invalid appid''))]"
       and br = JNull and wr = JNull]
    token_exchange_fails_fast
    [where e = all_keys and net = no_text_net and img = "JStr tiny_png" and lang = JUndefined
       and bk = "js ''ak''" and bsec = "js ''sk''" and bmsg = "[]" and btoken = JNull
       and wk = "js ''app''" and wsec = "js ''appsecret''" and wmsg = "[]" and wtoken = JNull
       and br = "ocrResult (JStr []) (js ''baidu'')
                   (JObj [(js ''words_result'', JArr []), (js ''words_result_num'', JNum 0)])"
       and wr = "ocrResult (JStr []) (js ''wechat'')
                   (JObj [(js ''errcode'', JNum 0), (js ''errmsg'', JStr (js ''ok'')), (js ''items'', JArr [])])"]
  by (simp add: all_keys_def token_error_net_def no_text_net_def tiny_png_def js_def
        callBaiduOcr_def getBaiduAccessToken_def baiduResult_def encodeURIComponent_def
        callWechatOcr_def wechatAccessToken_def wechatResult_def)

section \<open>Unsupported providers\<close>

text \<open>
  C5, as the code has it. The specification says that every POST request with an
  unsupported provider is answered with a 400 that names the provider, never with a 500.
  The presence check and the size guard come first, and their messages do not name the
  provider; and the body is cast to its declared type without a check, so a provider
  that is not a string may fail to print, and the length of an \<open>imageBase64\<close> that is
  not a string may fail to compare, either of which ends in the 500 of the \<open>catch\<close>.
  For a POST request whose provider field is a string that is none of \<open>baidu\<close>,
  \<open>aliyun\<close>, \<open>wechat\<close>, \<open>gemini\<close>, and whose \<open>imageBase64\<close> is absent
  (missing, \<open>null\<close> or another falsy value) or a string: the response has status 400,
  never 500, and no outbound call is made; and when the provider is not empty and
  \<open>imageBase64\<close> is a string, not empty and at most \<open>7 * 1024 * 1024\<close> characters
  long, the error message is the unsupported-provider text followed by the provider.
\<close>

theorem unsupported_provider_rejected:
  assumes "method request = js ''POST''"
    and "body request = Some b"
    and "lookupField b (js ''provider'') = JStr p"
    and "p \<noteq> js ''baidu''" and "p \<noteq> js ''aliyun''"
    and "p \<noteq> js ''wechat''" and "p \<noteq> js ''gemini''"
    and "lookupField b (js ''imageBase64'') = JStr img
           \<or> \<not> truthy (lookupField b (js ''imageBase64''))"
  shows "fst (handler eng e net request) = []
       \<and> status (snd (handler eng e net request)) = 400
       \<and> (p \<noteq> [] \<and> lookupField b (js ''imageBase64'') = JStr img \<and> img \<noteq> []
            \<and> length img \<le> 7 * 1024 * 1024
          \<longrightarrow> sent (snd (handler eng e net request)) = Some (failure (msg_unsupported_provider @ p)))"
proof (cases "truthy (lookupField b (js ''imageBase64''))")
  case False
  with assms show ?thesis
    by (auto simp add: handler_def reply_def)
next
  case True
  with assms have image: "lookupField b (js ''imageBase64'') = JStr img"
    by auto
  from assms have object: "truthy b"
    by (cases b) auto
  show ?thesis
  proof (cases "length img > 7 * 1024 * 1024")
    case True
    with assms image object show ?thesis
      by (simp add: handler_def dispatch_def reply_def)
  next
    case False
    with assms image object show ?thesis
      by (simp add: handler_def dispatch_def reply_def)
  qed
qed

theorem unsupported_provider_rejected_witness:
  "fst (handler quiet_engine all_keys no_text_net (ocr_request (js ''tencent'') tiny_png)) = []
 \<and> status (snd (handler quiet_engine all_keys no_text_net (ocr_request (js ''tencent'') tiny_png))) = 400
 \<and> sent (snd (handler quiet_engine all_keys no_text_net (ocr_request (js ''tencent'') tiny_png)))
     = Some (failure (msg_unsupported_provider @ js ''tencent''))"
  using unsupported_provider_rejected
    [of "ocr_request (js ''tencent'') tiny_png"
        "JObj [(js ''provider'', JStr (js ''tencent'')), (js ''imageBase64'', JStr tiny_png)]"
        "js ''tencent''" tiny_png quiet_engine all_keys no_text_net]
  by (simp add: ocr_request_def tiny_png_def js_def)

text \<open>
  Three inputs at which the sentence of the specification fails. A POST request with the
  provider \<open>tencent\<close> and no \<open>imageBase64\<close>: the response is the 400 of the presence
  check, and its message does not contain \<open>tencent\<close>. A POST request with the image
  \<open>abc\<close> and, as its provider, the object \<open>{ toString: 1 }\<close>: the provider passes
  the presence check, matches no case of the \<open>switch\<close>, and cannot be printed into
  the message; no call is made and the response is the 500 of the \<open>catch\<close>. And a
  POST request with the provider \<open>tencent\<close> and, as its image, the object
  \<open>{ length: { valueOf: 1, toString: 1 } }\<close>: the length cannot be converted to a
  number for the size guard, and the response is the 500 again.
\<close>

theorem unsupported_provider_counterexample:
  "snd (handler quiet_engine all_keys no_text_net
          (post_body (JObj [(js ''provider'', JStr (js ''tencent''))])))
     = reply 400 (failure msg_missing_params)
 \<and> \<not> includesStr msg_missing_params (js ''tencent'')
 \<and> fst (handler quiet_engine all_keys no_text_net
          (post_body (JObj [(js ''provider'', JObj [(js ''toString'', JNum 1)]),
                            (js ''imageBase64'', JStr (js ''abc''))]))) = []
 \<and> status (snd (handler quiet_engine all_keys no_text_net
          (post_body (JObj [(js ''provider'', JObj [(js ''toString'', JNum 1)]),
                            (js ''imageBase64'', JStr (js ''abc''))])))) = 500
 \<and> status (snd (handler quiet_engine all_keys no_text_net
          (post_body (JObj [(js ''provider'', JStr (js ''tencent'')),
                            (js ''imageBase64'',
                             JObj [(js ''length'',
                                    JObj [(js ''valueOf'', JNum 1), (js ''toString'', JNum 1)])])])))) = 500"
  by (simp add: handler_def dispatch_def serverError_def reply_def post_body_def
        msg_missing_params_def js_def)

section \<open>The connectivity prober\<close>

lemma checkFields_fold:
  "fold (\<lambda>(key, val) (allConfigured, missingFields).
           if \<not> truthyStr val then (False, missingFields @ [key])
           else (allConfigured, missingFields)) entries (ok, ms)
   = (ok \<and> (\<forall>kv \<in> set entries. truthyStr (snd kv)),
      ms @ map fst (filter (\<lambda>kv. \<not> truthyStr (snd kv)) entries))"
  by (induction entries arbitrary: ok ms) (auto split: prod.splits)

lemma checkFields_eq:
  "checkFields entries =
     (\<forall>kv \<in> set entries. truthyStr (snd kv),
      map fst (filter (\<lambda>kv. \<not> truthyStr (snd kv)) entries))"
  by (simp add: checkFields_def checkFields_fold)

lemma envVars_no_empty_name: "map_of (envVars e) [] = None"
  by (simp add: envVars_def js_def)

lemma providerEntries_table:
  "map_of (envVars e) p = Some entries \<Longrightarrow> providerEntries e p = Inr entries"
  by (simp add: providerEntries_def)

text \<open>
  C7. For a POST request to the prober that names a provider of the table
  (\<open>baidu\<close>, \<open>aliyun\<close>, \<open>wechat\<close>, \<open>gemini\<close>), with \<open>entries\<close> the provider's
  credential fields and their values: when some field is unset or empty, the response
  has status 400, \<open>success: false\<close>, and \<open>missingFields\<close> is the list of the names
  of exactly those fields, in the table's order; when every field is set and the
  provider is not \<open>baidu\<close>, the response has status 200 and \<open>success: true\<close>. In
  both cases no outbound call is made.
\<close>

theorem probe_reports_missing_fields:
  assumes "method request = js ''POST''"
    and "body request = Some b"
    and "TestRequest.provider b = Some p"
    and "map_of (envVars e) p = Some entries"
  shows "((\<exists>kv \<in> set entries. \<not> truthyStr (snd kv)) \<longrightarrow>
            fst (test_handler eng e net request) = []
          \<and> status (snd (test_handler eng e net request)) = 400
          \<and> (\<exists>v. sent (snd (test_handler eng e net request)) = Some v
                \<and> lookupField v (js ''success'') = JBool False
                \<and> lookupField v (js ''missingFields'') =
                    JArr (map JStr (map fst (filter (\<lambda>kv. \<not> truthyStr (snd kv)) entries)))))
       \<and> ((\<forall>kv \<in> set entries. truthyStr (snd kv)) \<and> p \<noteq> js ''baidu'' \<longrightarrow>
            fst (test_handler eng e net request) = []
          \<and> status (snd (test_handler eng e net request)) = 200
          \<and> (\<exists>v. sent (snd (test_handler eng e net request)) = Some v
                \<and> lookupField v (js ''success'') = JBool True))"
proof -
  from assms(4) have "p \<noteq> []"
    using envVars_no_empty_name [of e] by auto
  with assms show ?thesis
    by (auto simp add: test_handler_def providerEntries_table checkFields_eq testReply_def)
qed

theorem probe_reports_missing_fields_witness:
  "fst (test_handler quiet_engine gemini_only no_text_net (test_request (js ''baidu''))) = []
 \<and> status (snd (test_handler quiet_engine gemini_only no_text_net (test_request (js ''baidu'')))) = 400
 \<and> (\<exists>v. sent (snd (test_handler quiet_engine gemini_only no_text_net (test_request (js ''baidu'')))) = Some v
        \<and> lookupField v (js ''success'') = JBool False
        \<and> lookupField v (js ''missingFields'') = JArr [JStr (js ''apiKey''), JStr (js ''secretKey'')])
 \<and> fst (test_handler quiet_engine gemini_only no_text_net (test_request (js ''wechat''))) = []
 \<and> (\<exists>v. sent (snd (test_handler quiet_engine gemini_only no_text_net (test_request (js ''wechat'')))) = Some v
        \<and> lookupField v (js ''missingFields'') = JArr [JStr (js ''appSecret'')])
 \<and> fst (test_handler quiet_engine gemini_only no_text_net (test_request (js ''gemini''))) = []
 \<and> status (snd (test_handler quiet_engine gemini_only no_text_net (test_request (js ''gemini'')))) = 200
 \<and> (\<exists>v. sent (snd (test_handler quiet_engine gemini_only no_text_net (test_request (js ''gemini'')))) = Some v
        \<and> lookupField v (js ''success'') = JBool True)"
  using probe_reports_missing_fields
    [of "test_request (js ''baidu'')" "\<lparr>TestRequest.provider = Some (js ''baidu'')\<rparr>" "js ''baidu''"
        gemini_only "[(js ''apiKey'', Some []), (js ''secretKey'', None)]" quiet_engine no_text_net]
    probe_reports_missing_fields
    [of "test_request (js ''wechat'')" "\<lparr>TestRequest.provider = Some (js ''wechat'')\<rparr>" "js ''wechat''"
        gemini_only "[(js ''appId'', Some (js ''app'')), (js ''appSecret'', None)]" quiet_engine no_text_net]
    probe_reports_missing_fields
    [of "test_request (js ''gemini'')" "\<lparr>TestRequest.provider = Some (js ''gemini'')\<rparr>" "js ''gemini''"
        gemini_only "[(js ''apiKey'', Some (js ''gk''))]" quiet_engine no_text_net]
  by (auto simp add: test_request_def gemini_only_def envVars_def truthyStr_def js_def)

text \<open>
  C10. When the prober is asked about \<open>baidu\<close>, both keys are configured, and the
  response of the token exchange carries an error field, the prober answers with
  status 200, the default that \<open>response.json\<close> leaves, and a body with
  \<open>success: false\<close> and the authentication text followed by the vendor's
  \<open>error_description\<close> (as a template literal prints it). The token call is the one
  outbound call.
\<close>

theorem baidu_probe_error_has_status_200:
  assumes "method request = js ''POST''"
    and "body request = Some b"
    and "TestRequest.provider b = Some (js ''baidu'')"
    and "bothSet (BAIDU_OCR_API_KEY e) (BAIDU_OCR_SECRET_KEY e) = Some (k, s)"
    and "net (BaiduToken k s) = Inr data"
    and "truthy (lookupField data (js ''error''))"
    and "toStr (lookupField data (js ''error_description'')) = Inr d"
  shows "fst (test_handler eng e net request) = [BaiduToken k s]
       \<and> status (snd (test_handler eng e net request)) = 200
       \<and> sent (snd (test_handler eng e net request)) = Some (failure (msg_baidu_auth_failed @ d))
       \<and> lookupField (failure (msg_baidu_auth_failed @ d)) (js ''success'') = JBool False"
proof -
  from assms have keys: "BAIDU_OCR_API_KEY e = Some k" "BAIDU_OCR_SECRET_KEY e = Some s"
    "k \<noteq> []" "s \<noteq> []"
    by simp_all
  then have entries: "providerEntries e (js ''baidu'') =
      Inr [(js ''apiKey'', Some k), (js ''secretKey'', Some s)]"
    by (simp add: providerEntries_def envVars_def)
  from keys have check: "checkFields [(js ''apiKey'', Some k), (js ''secretKey'', Some s)] = (True, [])"
    by (simp add: checkFields_eq truthyStr_def)
  from keys have texts:
    "entryText [(js ''apiKey'', Some k), (js ''secretKey'', Some s)] (js ''apiKey'') = k"
    "entryText [(js ''apiKey'', Some k), (js ''secretKey'', Some s)] (js ''secretKey'') = s"
    by (simp_all add: entryText_def)
  from assms have "\<not> nullish data"
    by (simp add: truthy_field_not_nullish)
  with assms have probe: "baiduProbe data = Inr (testReply 200 (failure (msg_baidu_auth_failed @ d)))"
    by (simp add: baiduProbe_def)
  have "js ''baidu'' \<noteq> []"
    by (simp add: js_def)
  with assms entries check texts probe show ?thesis
    by (simp add: test_handler_def testCatch_def testReply_def del: bothSet_Some)
qed

theorem baidu_probe_error_has_status_200_witness:
  "fst (test_handler quiet_engine all_keys token_error_net (test_request (js ''baidu'')))
     = [BaiduToken (js ''ak'') (js ''sk'')]
 \<and> status (snd (test_handler quiet_engine all_keys token_error_net (test_request (js ''baidu'')))) = 200
 \<and> sent (snd (test_handler quiet_engine all_keys token_error_net (test_request (js ''baidu''))))
     = Some (failure (msg_baidu_auth_failed @ js ''unknown client id''))"
  using baidu_probe_error_has_status_200
    [of "test_request (js ''baidu'')" "\<lparr>TestRequest.provider = Some (js ''baidu'')\<rparr>"
        all_keys "js ''ak''" "js ''sk''" token_error_net
        "JObj [(js ''error'', JStr (js ''invalid_client'')),
               (js ''error_description'', JStr (js ''unknown client id''))]"
        "js ''unknown client id''" quiet_engine]
  by (simp add: test_request_def all_keys_def token_error_net_def js_def)

section \<open>Local providers at the facade\<close>

lemma local_message_not_network: "msg_use_local_service \<noteq> msg_network_failed"
  by (simp add: msg_use_local_service_def msg_network_failed_def)

lemma local_message_not_failure: "msg_use_local_service \<noteq> msg_ocr_failed @ m"
  by (simp add: msg_use_local_service_def msg_ocr_failed_def js_def)

lemma cloudCatch_not_local: "cloudCatch eng err \<noteq> Error msg_use_local_service"
  using local_message_not_network local_message_not_failure [of "messageOf eng err"]
  by (auto simp add: cloudCatch_def)

text \<open>
  C8. \<open>performCloudOcr\<close>, called with the provider \<open>LOCAL\<close> or \<open>ESEARCH\<close>, throws
  the error that directs the caller to the local service, and makes no \<open>fetch\<close>. The
  message is distinct from the two kinds of message that the network path throws (the
  network-failure text, and the recognition-failure text followed by a cause): for
  every other provider, whatever the \<open>fetch\<close> does, one \<open>fetch\<close> is made and the
  error thrown, if any, is not the local one.
\<close>

theorem local_provider_is_a_caller_error:
  "(p = LOCAL \<or> p = ESEARCH \<longrightarrow>
      performCloudOcr eng api p img lang opts = ([], Inl (Error msg_use_local_service)))
 \<and> msg_use_local_service \<noteq> msg_network_failed
 \<and> (\<forall>m. msg_use_local_service \<noteq> msg_ocr_failed @ m)
 \<and> (p \<noteq> LOCAL \<and> p \<noteq> ESEARCH \<longrightarrow>
      fst (performCloudOcr eng api p img lang opts) = [PostApiOcr (providerMap p) img lang opts]
    \<and> snd (performCloudOcr eng api p img lang opts) \<noteq> Inl (Error msg_use_local_service))"
  using cloudCatch_not_local [of eng]
  by (auto simp add: performCloudOcr_def local_message_not_network local_message_not_failure
        split: sum.splits)

theorem local_provider_is_a_caller_error_witness:
  "performCloudOcr quiet_engine offline_fetch LOCAL tiny_png None JUndefined
     = ([], Inl (Error msg_use_local_service))
 \<and> performCloudOcr quiet_engine offline_fetch ESEARCH tiny_png None JUndefined
     = ([], Inl (Error msg_use_local_service))
 \<and> fst (performCloudOcr quiet_engine offline_fetch BAIDU tiny_png None JUndefined)
     = [PostApiOcr (js ''baidu'') tiny_png None JUndefined]
 \<and> snd (performCloudOcr quiet_engine offline_fetch BAIDU tiny_png None JUndefined)
     \<noteq> Inl (Error msg_use_local_service)"
  using local_provider_is_a_caller_error [of LOCAL quiet_engine offline_fetch tiny_png None JUndefined]
    local_provider_is_a_caller_error [of ESEARCH quiet_engine offline_fetch tiny_png None JUndefined]
    local_provider_is_a_caller_error [of BAIDU quiet_engine offline_fetch tiny_png None JUndefined]
  by simp

section \<open>The analysis adapter\<close>

text \<open>
  C9. \<open>analyzePosterImage\<close> (geminiService.ts), when a pre-extracted text is supplied
  (a non-empty string: the code's test takes the empty string as not supplied), the
  model answers with a body, and the body parses to an object whose top-level \<open>text\<close>
  is missing or empty (falsy), returns that object with \<open>text\<close> set to the
  pre-extracted text and every other property as parsed.
\<close>

theorem pre_extracted_text_substituted:
  assumes "ai (GenerateContent (envText key) (js ''gemini-3-pro-preview'') (Some img)
                 (PosterPrompt terminology (Some pre))) = Inr (Some t)"
    and "t \<noteq> []"
    and "parse t = Inr (JObj kvs)"
    and "pre \<noteq> []"
    and "\<not> truthy (lookupField (JObj kvs) (js ''text''))"
  shows "\<exists>r. analyzePosterImage ai parse key img terminology (Some pre) = Inr (Plain r)
            \<and> lookupField r (js ''text'') = JStr pre
            \<and> (\<forall>k. k \<noteq> js ''text'' \<longrightarrow> lookupField r k = lookupField (JObj kvs) k)"
proof -
  from assms have "analyzePosterImage ai parse key img terminology (Some pre)
      = Inr (Plain (JObj (AList.update (js ''text'') (JStr pre) kvs)))"
    by (simp add: analyzePosterImage_def truthyStr_def)
  then show ?thesis
    by (intro exI [of _ "JObj (AList.update (js ''text'') (JStr pre) kvs)"])
       (simp add: update_conv')
qed

theorem pre_extracted_text_substituted_witness:
  "\<exists>r. analyzePosterImage (\<lambda>g. Inr (Some (js ''{}''))) sample_parse (Some (js ''gk'')) tiny_png
          (JArr []) (Some (js ''4K NVR'')) = Inr (Plain r)
       \<and> lookupField r (js ''text'') = JStr (js ''4K NVR'')"
  using pre_extracted_text_substituted
    [of "\<lambda>g. Inr (Some (js ''{}''))" "Some (js ''gk'')" tiny_png "JArr []" "js ''4K NVR''"
        "js ''{}''" sample_parse "[]"]
  by (auto simp add: sample_parse_def terms_text_def js_def)

section \<open>Extracting terms\<close>

lemma parsedTerms_empty:
  "\<not> truthyStr resultText \<Longrightarrow> parsedTerms parse resultText = Inr (JArr [])"
  by (auto simp add: parsedTerms_def truthyStr_def split: option.splits)

lemma part_001_returns:
  assumes "truthy (getGeminiApiKey fe)"
  shows "parseTerminologyFromText_part_001 fe ai parse rawText =
           (case bindE (ai (GenerateContent (getGeminiApiKey fe) (js ''gemini-1.5-flash'') None
                              (TerminologyPromptFlash rawText))) (parsedTerms parse) of
              Inl err \<Rightarrow> Inr (JArr [])
            | Inr terms \<Rightarrow> Inr terms)"
  using assms by (simp add: parseTerminologyFromText_part_001_def)

text \<open>
  C6, as the code has it. The specification says that on an empty input text the result
  is an empty list whatever the model call does. Neither version looks at the input: the text
  goes into the prompt, and what the model's body parses to is returned. The version
  of part\_001 throws when no Gemini API key is configured. With a key configured it
  never throws, for every input and every outcome of the model call: it returns an
  empty list when the call fails, when the body is missing or empty, and when the body
  does not parse; otherwise it returns what the body parses to. In the version of
  geminiService.ts a missing or empty body gives an empty list as well.
\<close>

theorem parse_terminology_never_throws:
  assumes "truthy (getGeminiApiKey fe)"
  shows "(\<exists>terms. parseTerminologyFromText_part_001 fe ai parse rawText = Inr terms)
       \<and> (ai (GenerateContent (getGeminiApiKey fe) (js ''gemini-1.5-flash'') None
                (TerminologyPromptFlash rawText)) = Inl err
          \<longrightarrow> parseTerminologyFromText_part_001 fe ai parse rawText = Inr (JArr []))
       \<and> (ai (GenerateContent (getGeminiApiKey fe) (js ''gemini-1.5-flash'') None
                (TerminologyPromptFlash rawText)) = Inr resultText \<and> \<not> truthyStr resultText
          \<longrightarrow> parseTerminologyFromText_part_001 fe ai parse rawText = Inr (JArr []))
       \<and> (ai (GenerateContent (getGeminiApiKey fe) (js ''gemini-1.5-flash'') None
                (TerminologyPromptFlash rawText)) = Inr (Some t) \<and> t \<noteq> [] \<and> parse t = Inl err'
          \<longrightarrow> parseTerminologyFromText_part_001 fe ai parse rawText = Inr (JArr []))
       \<and> (ai (GenerateContent (getGeminiApiKey fe) (js ''gemini-1.5-flash'') None
                (TerminologyPromptFlash rawText)) = Inr (Some t) \<and> t \<noteq> [] \<and> parse t = Inr v
          \<longrightarrow> parseTerminologyFromText_part_001 fe ai parse rawText = Inr v)
       \<and> (ai' (GenerateContent (envText key) (js ''gemini-3-pro-preview'') None
                (TerminologyPrompt rawText)) = Inr resultText' \<and> \<not> truthyStr resultText'
          \<longrightarrow> parseTerminologyFromText ai' parse key rawText = Inr (JArr []))"
proof (intro conjI impI)
  show "\<exists>terms. parseTerminologyFromText_part_001 fe ai parse rawText = Inr terms"
    by (simp add: part_001_returns [OF assms] split: sum.splits)
next
  assume "ai (GenerateContent (getGeminiApiKey fe) (js ''gemini-1.5-flash'') None
                (TerminologyPromptFlash rawText)) = Inl err"
  then show "parseTerminologyFromText_part_001 fe ai parse rawText = Inr (JArr [])"
    by (simp add: part_001_returns [OF assms])
next
  assume "ai (GenerateContent (getGeminiApiKey fe) (js ''gemini-1.5-flash'') None
                (TerminologyPromptFlash rawText)) = Inr resultText \<and> \<not> truthyStr resultText"
  then show "parseTerminologyFromText_part_001 fe ai parse rawText = Inr (JArr [])"
    by (simp add: part_001_returns [OF assms] parsedTerms_empty)
next
  assume "ai (GenerateContent (getGeminiApiKey fe) (js ''gemini-1.5-flash'') None
                (TerminologyPromptFlash rawText)) = Inr (Some t) \<and> t \<noteq> [] \<and> parse t = Inl err'"
  then show "parseTerminologyFromText_part_001 fe ai parse rawText = Inr (JArr [])"
    by (simp add: part_001_returns [OF assms] parsedTerms_def)
next
  assume "ai (GenerateContent (getGeminiApiKey fe) (js ''gemini-1.5-flash'') None
                (TerminologyPromptFlash rawText)) = Inr (Some t) \<and> t \<noteq> [] \<and> parse t = Inr v"
  then show "parseTerminologyFromText_part_001 fe ai parse rawText = Inr v"
    by (simp add: part_001_returns [OF assms] parsedTerms_def)
next
  assume "ai' (GenerateContent (envText key) (js ''gemini-3-pro-preview'') None
                (TerminologyPrompt rawText)) = Inr resultText' \<and> \<not> truthyStr resultText'"
  then show "parseTerminologyFromText ai' parse key rawText = Inr (JArr [])"
    by (simp add: parseTerminologyFromText_def parsedTerms_empty)
qed

theorem parse_terminology_never_throws_witness:
  "parseTerminologyFromText_part_001 key_in_window (\<lambda>g. Inl (Error (js ''quota exceeded'')))
     sample_parse [] = Inr (JArr [])
 \<and> parseTerminologyFromText_part_001 key_in_window (\<lambda>g. Inr None) sample_parse [] = Inr (JArr [])
 \<and> parseTerminologyFromText_part_001 key_in_window (\<lambda>g. Inr (Some (js ''not json'')))
     sample_parse [] = Inr (JArr [])
 \<and> parseTerminologyFromText_part_001 key_in_window (\<lambda>g. Inr (Some (js ''[]'')))
     sample_parse [] = Inr (JArr [])
 \<and> parseTerminologyFromText (\<lambda>g. Inr (Some [])) sample_parse (Some (js ''gk'')) [] = Inr (JArr [])"
  using parse_terminology_never_throws
      [where fe = key_in_window and ai = "\<lambda>g. Inl (Error (js ''quota exceeded''))"
         and parse = sample_parse and rawText = "[]" and err = "Error (js ''quota exceeded'')"
         and resultText = None and t = "[]" and err' = "Error []" and v = JNull
         and ai' = "\<lambda>g. Inr (Some [])" and key = "Some (js ''gk'')" and resultText' = "Some []"]
    parse_terminology_never_throws
      [where fe = key_in_window and ai = "\<lambda>g. Inr None"
         and parse = sample_parse and rawText = "[]" and err = "Error []"
         and resultText = None and t = "[]" and err' = "Error []" and v = JNull
         and ai' = "\<lambda>g. Inr None" and key = "Some (js ''gk'')" and resultText' = None]
    parse_terminology_never_throws
      [where fe = key_in_window and ai = "\<lambda>g. Inr (Some (js ''not json''))"
         and parse = sample_parse and rawText = "[]" and err = "Error []"
         and resultText = None and t = "js ''not json''" and err' = "Error (js ''Unexpected token'')"
         and v = JNull
         and ai' = "\<lambda>g. Inr None" and key = "Some (js ''gk'')" and resultText' = None]
    parse_terminology_never_throws
      [where fe = key_in_window and ai = "\<lambda>g. Inr (Some (js ''[]''))"
         and parse = sample_parse and rawText = "[]" and err = "Error []"
         and resultText = None and t = "js ''[]''" and err' = "Error []" and v = "JArr []"
         and ai' = "\<lambda>g. Inr None" and key = "Some (js ''gk'')" and resultText' = None]
  by (simp add: key_in_window_def getGeminiApiKey_def optField_def sample_parse_def
        terms_text_def truthyStr_def js_def)

text \<open>
  The input at which the sentence of the specification fails: the raw text is empty, a
  key is configured, and the body of the model's response is the JSON text of a list of
  one term. The result is that list, not the empty list.
\<close>

theorem parse_terminology_counterexample:
  "parseTerminologyFromText_part_001 key_in_window (\<lambda>g. Inr (Some terms_text)) sample_parse []
     = Inr terms_value
 \<and> terms_value \<noteq> JArr []"
  by (simp add: parseTerminologyFromText_part_001_def parsedTerms_def key_in_window_def
        getGeminiApiKey_def optField_def sample_parse_def terms_text_def terms_value_def js_def)

end
